theory Spec2Isabelle
  imports Main "HOL-Library.Sublist"
begin

section \<open>Strings and values of the Python program\<close>

text \<open>
  A Python \<^verbatim>\<open>str\<close> is a sequence of Unicode code points and \<^verbatim>\<open>len\<close> counts
  code points, so a string is a list of code points (natural numbers) here, not a list
  of bytes. \<open>str\<close> turns an ASCII literal into such a list.
\<close>

type_synonym codepoint = nat
type_synonym pystr = "codepoint list"

definition str :: "string \<Rightarrow> pystr" where
  "str s = map of_char s"

text \<open>
  \<^verbatim>\<open>str.lower()\<close> on one code point of ASCII or on U+0130. The ASCII capitals move
  to their small letters and the other ASCII code points stay. U+0130 (LATIN CAPITAL
  LETTER I WITH DOT ABOVE, 304) is the one code point of Unicode whose lowercase form is
  two code points, U+0069 U+0307 (105, 775), so that \<^verbatim>\<open>len(s.lower())\<close> can exceed
  \<^verbatim>\<open>len(s)\<close>. The function is used on these code points only (see \<open>lower\<close> below).
\<close>

definition lower_cp :: "codepoint \<Rightarrow> pystr" where
  "lower_cp c = (if 65 \<le> c \<and> c \<le> 90 then [c + 32] else if c = 304 then [105, 775] else [c])"

text \<open>
  The values the module handles: what a caller can pass as an argument and what
  \<^verbatim>\<open>json.load\<close> can return. A JSON object is a \<^verbatim>\<open>dict\<close> with string keys, kept as
  an association list in insertion order. The module never looks inside a number.
\<close>

datatype pyval =
    PyNone
  | PyBool bool
  | PyNum int
  | PyStr pystr
  | PyList "pyval list"
  | PyDict "(pystr \<times> pyval) list"

text \<open>
  The exceptions that leave the module. \<open>JSONDecodeError\<close> carries the message, the
  document and the position; \<open>RecursionError\<close> (raised by the JSON decoder on a document
  nested too deeply) is a subclass of \<^verbatim>\<open>RuntimeError\<close>; \<open>RuntimeWarning\<close> is not.
\<close>

datatype exn =
    ValueError pystr
  | RuntimeError pystr
  | RecursionError pystr
  | RuntimeWarning pystr
  | KeyError pystr
  | FileNotFoundError pystr
  | JSONDecodeError pystr pystr nat
  | TypeError
  | AttributeError

text \<open>\<^verbatim>\<open>isinstance(e, RuntimeError)\<close>: what \<^verbatim>\<open>except RuntimeError\<close> catches.\<close>

fun is_RuntimeError :: "exn \<Rightarrow> bool" where
  "is_RuntimeError (RuntimeError m) = True"
| "is_RuntimeError (RecursionError m) = True"
| "is_RuntimeError e = False"

text \<open>\<^verbatim>\<open>str(e)\<close> for the exceptions \<^verbatim>\<open>except RuntimeError\<close> can catch.\<close>

fun str_of_exn :: "exn \<Rightarrow> pystr" where
  "str_of_exn (RuntimeError m) = m"
| "str_of_exn (RecursionError m) = m"
| "str_of_exn e = []"

text \<open>\<^verbatim>\<open>d[k]\<close>: a missing key of a dict raises KeyError, any other value in the place
  of the dict raises TypeError (a string key is no index of a list or a string, and
  the other values cannot be subscripted).\<close>

fun subscript :: "pyval \<Rightarrow> pystr \<Rightarrow> exn + pyval" where
  "subscript (PyDict kvs) k = (case map_of kvs k of None \<Rightarrow> Inl (KeyError k) | Some v \<Rightarrow> Inr v)"
| "subscript v k = Inl TypeError"

text \<open>\<^verbatim>\<open>d.keys()\<close>: only a dict has the method.\<close>

fun keys :: "pyval \<Rightarrow> exn + pystr list" where
  "keys (PyDict kvs) = Inr (map fst kvs)"
| "keys v = Inl AttributeError"

section \<open>The module's state and its surroundings\<close>

text \<open>
  The three module globals \<^verbatim>\<open>__source_lang\<close>, \<^verbatim>\<open>__target_lang\<close> (each None or a
  string) and \<^verbatim>\<open>__translations\<close> (initially the empty dict, afterwards whatever
  \<^verbatim>\<open>json.load\<close> returned).
\<close>

record state =
  g_source_lang :: "pystr option"
  g_target_lang :: "pystr option"
  g_translations :: pyval

definition initial :: state where
  "initial = \<lparr>g_source_lang = None, g_target_lang = None, g_translations = PyDict []\<rparr>"

text \<open>
  What the module reads from outside: the files of the working directory by name (a
  file either fails to parse at a position of its text, is nested too deeply for the
  decoder, or parses to a value), the list \<^verbatim>\<open>glob.glob("*.translation")\<close> returns, the
  text of the calling script, and, of the Python library, \<^verbatim>\<open>str.lower()\<close> on the
  strings that hold a code point beyond ASCII other than U+0130: the lowercase mapping of
  Unicode is not written out here, it is taken as it is given.
\<close>

datatype translation_file =
    Malformed pystr nat
  | TooDeep pystr
  | Parsed pyval

record env =
  files :: "pystr \<Rightarrow> translation_file option"
  globbed :: "pystr list"
  caller :: pystr
  unicode_lower :: "pystr \<Rightarrow> pystr"

text \<open>
  \<^verbatim>\<open>s.lower()\<close>. On a string of ASCII code points and U+0130 the lowercase form is
  made code point by code point (no rule of Unicode that looks at the neighbours applies
  to these code points); on every other string it is what the library gives.
\<close>

definition lower :: "env \<Rightarrow> pystr \<Rightarrow> pystr" where
  "lower e s = (if list_all (\<lambda>c. c < 128 \<or> c = 304) s then concat (map lower_cp s)
                else unicode_lower e s)"

text \<open>\<^verbatim>\<open>v.lower()\<close> on a value read from a file: only a string has the method.\<close>

fun lower_val :: "env \<Rightarrow> pyval \<Rightarrow> exn + pystr" where
  "lower_val e (PyStr s) = Inr (lower e s)"
| "lower_val e v = Inl AttributeError"

text \<open>An operation returns its result or the exception it raised, and the state it leaves.\<close>

type_synonym 'a result = "(exn + 'a) \<times> state"

section \<open>Loading a translation file\<close>

definition msg_no_file :: "pystr \<Rightarrow> pystr" where
  "msg_no_file t = str ''No translation file found for target language '' @ [39] @ t @ [39] @ str ''.''"

definition msg_bad_json :: "pystr \<Rightarrow> pystr" where
  "msg_bad_json t = [10] @ str ''Couldn't parse JSON in file '' @ [39] @ t @ str ''.translation'' @ [39]
     @ str ''. Check to make sure it is not malformed.'' @ [10] @ str ''Location of error in JSON data file''"

text \<open>
  \<^verbatim>\<open>__load_translations(target_lang)\<close>. The assignment to \<^verbatim>\<open>__translations\<close> happens
  only after \<^verbatim>\<open>json.load\<close> has returned; on every exception the global is untouched.
\<close>

definition load_translations :: "env \<Rightarrow> pystr \<Rightarrow> state \<Rightarrow> unit result" where
  "load_translations e t st =
     (case files e (t @ str ''.translation'') of
        None \<Rightarrow> (Inl (FileNotFoundError (msg_no_file t)), st)
      | Some (Malformed doc pos) \<Rightarrow> (Inl (JSONDecodeError (msg_bad_json t) doc pos), st)
      | Some (TooDeep m) \<Rightarrow> (Inl (RecursionError m), st)
      | Some (Parsed v) \<Rightarrow> (Inr (), st\<lparr>g_translations := v\<rparr>))"

section \<open>translator and the lookup function it returns\<close>

definition msg_source_two :: pystr where
  "msg_source_two = str ''source_lang must be a two character string, such as '' @ [39] @ str ''en''
     @ [39] @ str '' or '' @ [39] @ str ''pl'' @ [39] @ str ''.''"

definition msg_target_or_None :: pystr where
  "msg_target_or_None = str ''target_lang must be either a two character string, or the value None.''"

text \<open>What \<^verbatim>\<open>translator\<close> returns: the reference to \<^verbatim>\<open>__gettext\<close>, which reads the
  globals when it is called.\<close>

datatype handle = Gettext

text \<open>The last part of \<^verbatim>\<open>translator\<close>, once both globals are set (lines 131-145).\<close>

definition translator_load :: "env \<Rightarrow> state \<Rightarrow> handle result" where
  "translator_load e st =
     (case g_target_lang st of
        None \<Rightarrow> (Inr Gettext, st\<lparr>g_translations := PyDict []\<rparr>)
      | Some t \<Rightarrow>
          if Some t = g_source_lang st then (Inr Gettext, st\<lparr>g_translations := PyDict []\<rparr>)
          else (case load_translations e t st of
                  (Inl x, st') \<Rightarrow> (Inl x, st')
                | (Inr u, st') \<Rightarrow> (Inr Gettext, st')))"

fun translator :: "env \<Rightarrow> pyval \<Rightarrow> pyval \<Rightarrow> state \<Rightarrow> handle result" where
  "translator e (PyStr s) tgt st =
     (if length s = 2 then
        (let st1 = st\<lparr>g_source_lang := Some (lower e s)\<rparr> in
         case tgt of
           PyNone \<Rightarrow> translator_load e (st1\<lparr>g_target_lang := None\<rparr>)
         | PyStr t \<Rightarrow>
             if length t = 2 then translator_load e (st1\<lparr>g_target_lang := Some (lower e t)\<rparr>)
             else (Inl (ValueError msg_target_or_None), st1)
         | _ \<Rightarrow> (Inl (ValueError msg_target_or_None), st1))
      else (Inl (ValueError msg_source_two), st))"
| "translator e src tgt st = (Inl (ValueError msg_source_two), st)"

definition msg_source_unset :: pystr where
  "msg_source_unset = str ''The source language of your script has not been set to valid data. ''
     @ str ''Please make sure it is set in your calling script by first calling ''
     @ str ''the function translator() with a valid source_lang parameter.''"

definition msg_target_bad :: pystr where
  "msg_target_bad = str ''The target language of your script has been set to a bad value. ''
     @ str ''Please make sure it is set in your calling script by first calling ''
     @ str ''the function translator() with a valid target_lang parameter, or ''
     @ str ''otherwise setting the target_lang to None.''"

definition msg_not_found :: "pystr \<Rightarrow> pystr \<Rightarrow> pystr" where
  "msg_not_found p t = str ''Source phrase '' @ [39] @ p @ [39]
     @ str '' was not found in the translation file for target_lang '' @ [39] @ t @ [39] @ str ''.''"

text \<open>
  The translate branch of \<^verbatim>\<open>__gettext\<close> (lines 188-199) with target language \<open>t\<close>.
  \<^verbatim>\<open>__translations.keys()\<close> is evaluated first. A phrase that is not a string is no
  key of the dict (or cannot be hashed), and cannot be joined to the message either.
\<close>

definition gettext_translate :: "pyval \<Rightarrow> pystr \<Rightarrow> pyval \<Rightarrow> exn + pyval" where
  "gettext_translate tr t phrase =
     (case keys tr of
        Inl x \<Rightarrow> Inl x
      | Inr ks \<Rightarrow>
          (case phrase of
             PyStr p \<Rightarrow> if p \<in> set ks then subscript tr p else Inl (KeyError (msg_not_found p t))
           | _ \<Rightarrow> Inl TypeError))"

text \<open>\<^verbatim>\<open>__gettext(source_phrase)\<close>: it reads the three globals and changes none.\<close>

definition gettext :: "state \<Rightarrow> pyval \<Rightarrow> exn + pyval" where
  "gettext st phrase =
     (case g_source_lang st of
        None \<Rightarrow> Inl (RuntimeError msg_source_unset)
      | Some s \<Rightarrow>
          if length s = 2 then
            (case g_target_lang st of
               None \<Rightarrow> Inr phrase
             | Some t \<Rightarrow>
                 if length t = 2 then
                   (if Some t = g_source_lang st then Inr phrase
                    else gettext_translate (g_translations st) t phrase)
                 else Inl (RuntimeError msg_target_bad))
          else Inl (RuntimeError msg_source_unset))"

section \<open>Readable name of a language\<close>

text \<open>
  \<^verbatim>\<open>get_lang_readable_name(lang)\<close>. The comparison with \<^verbatim>\<open>'en'\<close> comes first and the
  argument is never lowercased. The saved store is put back only on the way that reaches
  the last assignment: there is no \<^verbatim>\<open>try\<close> around the load and the subscript.
\<close>

definition get_lang_readable_name :: "env \<Rightarrow> pyval \<Rightarrow> state \<Rightarrow> pyval result" where
  "get_lang_readable_name e lang st =
     (if lang = PyStr (str ''en'') then (Inr (PyStr (str ''English'')), st)
      else (case lang of
              PyStr l \<Rightarrow>
                if length l = 2 then
                  (let temptrans = g_translations st in
                   case load_translations e l st of
                     (Inl x, st1) \<Rightarrow> (Inl x, st1)
                   | (Inr u, st1) \<Rightarrow>
                       (case subscript (g_translations st1) (str ''__target_lang_readable'') of
                          Inl x \<Rightarrow> (Inl x, st1)
                        | Inr output \<Rightarrow> (Inr output, st1\<lparr>g_translations := temptrans\<rparr>)))
                else (Inl (ValueError msg_source_two), st)
            | _ \<Rightarrow> (Inl (ValueError msg_source_two), st)))"

section \<open>getlangs\<close>

definition msg_source_exactly :: pystr where
  "msg_source_exactly = str ''source_lang must be a string of exactly two characters in length.''"

definition msg_mismatch :: "pystr \<Rightarrow> pystr \<Rightarrow> pystr \<Rightarrow> pystr" where
  "msg_mismatch lang declared src =
     str ''The translation file for '' @ [39] @ lang @ [39] @ str '' defines a source language of ''
     @ [39] @ declared @ [39] @ str '' which does not match the program'' @ [39]
     @ str ''s specified source language of '' @ [39] @ src @ [39] @ str ''.''"

definition msg_could_not_load :: "pystr \<Rightarrow> pystr" where
  "msg_could_not_load lang = str ''Could not load the translation file for '' @ [39] @ lang @ [39]
     @ str ''. Please check the file for errors.''"

text \<open>The body of the \<^verbatim>\<open>try\<close> (lines 237-245) for one candidate.\<close>

definition getlangs_check :: "env \<Rightarrow> pystr \<Rightarrow> pystr \<Rightarrow> state \<Rightarrow> unit result" where
  "getlangs_check e src lang st =
     (case load_translations e lang st of
        (Inl x, st1) \<Rightarrow> (Inl x, st1)
      | (Inr u, st1) \<Rightarrow>
          (case subscript (g_translations st1) (str ''__source_lang'') of
             Inl x \<Rightarrow> (Inl x, st1)
           | Inr d \<Rightarrow>
               (case lower_val e d of
                  Inl x \<Rightarrow> (Inl x, st1)
                | Inr dl \<Rightarrow>
                    if dl = src then (Inr (), st1)
                    else (Inl (RuntimeError (msg_mismatch lang dl src)), st1))))"

text \<open>
  The handler \<^verbatim>\<open>except RuntimeError as e\<close> (lines 248-257): what leaves the
  \<^verbatim>\<open>try\<close> statement when its body raised \<open>x\<close>. An exception that is no RuntimeError is
  not caught and leaves as it is.
\<close>

definition getlangs_except :: "pystr \<Rightarrow> exn \<Rightarrow> exn" where
  "getlangs_except lang x =
     (if is_RuntimeError x then
        (if sublist (str ''does not match'') (str_of_exn x) then x
         else RuntimeError (msg_could_not_load lang))
      else x)"

text \<open>The \<^verbatim>\<open>for\<close> loop over the candidates; the \<^verbatim>\<open>finally\<close> clause puts the saved
  store back after every candidate that was checked, whatever happened.\<close>

fun getlangs_loop :: "env \<Rightarrow> pystr \<Rightarrow> pyval \<Rightarrow> pystr list \<Rightarrow> state \<Rightarrow> unit result" where
  "getlangs_loop e src temptrans [] st = (Inr (), st)"
| "getlangs_loop e src temptrans (lang # rest) st =
     (if lang = src then getlangs_loop e src temptrans rest st
      else (case getlangs_check e src lang st of
              (Inl x, st1) \<Rightarrow> (Inl (getlangs_except lang x), st1\<lparr>g_translations := temptrans\<rparr>)
            | (Inr u, st1) \<Rightarrow> getlangs_loop e src temptrans rest (st1\<lparr>g_translations := temptrans\<rparr>)))"

fun getlangs :: "env \<Rightarrow> pyval \<Rightarrow> state \<Rightarrow> pystr list result" where
  "getlangs e (PyStr s) st =
     (if length s = 2 then
        (let src = lower e s;
             langs = map (take 2) (src # globbed e)
         in case getlangs_loop e src (g_translations st) langs st of
              (Inl x, st') \<Rightarrow> (Inl x, st')
            | (Inr u, st') \<Rightarrow> (Inr langs, st'))
      else (Inl (ValueError msg_source_exactly), st))"
| "getlangs e v st = (Inl (ValueError msg_source_exactly), st)"

section \<open>Scanning the calling script\<close>

text \<open>
  The regular expression \<^verbatim>\<open>^.*_\(["'](.+?)["']\).*$\<close> with \<^verbatim>\<open>re.M\<close>: the dot matches
  every code point but the newline (10), so a match lies within one line and, being
  anchored at both ends, is the whole line. \<open>lazy_literal\<close> is \<^verbatim>\<open>(.+?)["']\)\<close>: the
  shortest non-empty literal that a quote (34 or 39) and a closing parenthesis (41)
  follow. \<open>match_call\<close> is \<^verbatim>\<open>_\(["'](.+?)["']\)\<close> at the head of a text. \<open>match_line\<close>
  is the whole expression on one line: the first \<^verbatim>\<open>.*\<close> is greedy, so the call that
  starts furthest to the right is tried first. The result is group 1.
\<close>

definition is_quote :: "codepoint \<Rightarrow> bool" where
  "is_quote c = (c = 34 \<or> c = 39)"

fun lazy_literal :: "pystr \<Rightarrow> pystr \<Rightarrow> pystr option" where
  "lazy_literal acc (q # p # rest) =
     (if is_quote q \<and> p = 41 then Some acc else lazy_literal (acc @ [q]) (p # rest))"
| "lazy_literal acc rest = None"

fun match_call :: "pystr \<Rightarrow> pystr option" where
  "match_call (u # l # q # c # rest) =
     (if u = 95 \<and> l = 40 \<and> is_quote q then lazy_literal [c] rest else None)"
| "match_call s = None"

fun match_line :: "pystr \<Rightarrow> pystr option" where
  "match_line [] = None"
| "match_line (c # cs) =
     (case match_line cs of Some g \<Rightarrow> Some g | None \<Rightarrow> match_call (c # cs))"

text \<open>The lines of a text, cut at every newline.\<close>

fun split_lines :: "pystr \<Rightarrow> pystr list" where
  "split_lines [] = [[]]"
| "split_lines (c # cs) =
     (if c = 10 then [] # split_lines cs
      else (case split_lines cs of [] \<Rightarrow> [[c]] | l # ls \<Rightarrow> (c # l) # ls))"

text \<open>\<^verbatim>\<open>re.finditer\<close>: the matches in order, each with group 0 (the line) and group 1
  (the literal).\<close>

definition finditer :: "pystr \<Rightarrow> (pystr \<times> pystr) list" where
  "finditer script = List.map_filter (\<lambda>l. map_option (Pair l) (match_line l)) (split_lines script)"

text \<open>\<^verbatim>\<open>re.search(r'^.*#', line, re.M) is not None\<close> on a line without a newline: the line
  holds the code point 35 somewhere.\<close>

definition has_hash :: "pystr \<Rightarrow> bool" where
  "has_hash line = (35 \<in> set line)"

text \<open>The loop of \<^verbatim>\<open>cleanup_translation_data\<close> (lines 348-354), which collects a list.\<close>

definition scan_list :: "pystr \<Rightarrow> pystr list" where
  "scan_list script =
     foldl (\<lambda>scriptdata (g0, g1). if has_hash g0 then scriptdata else scriptdata @ [g1])
       [] (finditer script)"

text \<open>\<^verbatim>\<open>d.update({k: v})\<close> on a dict kept in insertion order: a key that is already
  there keeps its place.\<close>

fun dict_update :: "(pystr \<times> pyval) list \<Rightarrow> pystr \<Rightarrow> pyval \<Rightarrow> (pystr \<times> pyval) list" where
  "dict_update [] k v = [(k, v)]"
| "dict_update ((k', v') # kvs) k v =
     (if k' = k then (k, v) # kvs else (k', v') # dict_update kvs k v)"

text \<open>The dict both \<^verbatim>\<open>get_data_template\<close> and \<^verbatim>\<open>validate_translation_data\<close> start from,
  and their loop (lines 316-322 and 432-438), which adds every kept literal as a key.\<close>

definition special_fields :: "pystr \<Rightarrow> pystr \<Rightarrow> (pystr \<times> pyval) list" where
  "special_fields src tgt =
     [(str ''__source_lang'', PyStr src), (str ''__target_lang'', PyStr tgt),
      (str ''__target_lang_readable'', PyStr [])]"

definition scan_dict :: "(pystr \<times> pyval) list \<Rightarrow> pystr \<Rightarrow> (pystr \<times> pyval) list" where
  "scan_dict seed script =
     foldl (\<lambda>data (g0, g1). if has_hash g0 then data else dict_update data g1 (PyStr []))
       seed (finditer script)"

definition msg_target_two :: pystr where
  "msg_target_two = str ''target_lang must be a two character string, such as '' @ [39] @ str ''en''
     @ [39] @ str '' or '' @ [39] @ str ''pl'' @ [39] @ str ''.''"

text \<open>\<^verbatim>\<open>get_data_template(source_lang, target_lang)\<close>, up to the dict that is handed to
  \<^verbatim>\<open>json.dumps\<close>. It touches no global.\<close>

fun get_data_template :: "env \<Rightarrow> pyval \<Rightarrow> pyval \<Rightarrow> exn + (pystr \<times> pyval) list" where
  "get_data_template e (PyStr s) (PyStr t) =
     (if length s = 2 then
        (if length t = 2 then Inr (scan_dict (special_fields (lower e s) (lower e t)) (caller e))
         else Inl (ValueError msg_target_two))
      else Inl (ValueError msg_source_two))"
| "get_data_template e (PyStr s) tgt =
     (if length s = 2 then Inl (ValueError msg_target_two) else Inl (ValueError msg_source_two))"
| "get_data_template e src tgt = Inl (ValueError msg_source_two)"

section \<open>Reports\<close>

text \<open>\<^verbatim>\<open>sep.join(xs)\<close> and \<^verbatim>\<open>str(n)\<close> for a length.\<close>

fun join :: "pystr \<Rightarrow> pystr list \<Rightarrow> pystr" where
  "join sep [] = []"
| "join sep [x] = x"
| "join sep (x # y # ys) = x @ sep @ join sep (y # ys)"

fun str_of_nat :: "nat \<Rightarrow> pystr" where
  "str_of_nat n = (if n < 10 then [48 + n] else str_of_nat (n div 10) @ [48 + n mod 10])"

declare str_of_nat.simps [simp del]

text \<open>\<^verbatim>\<open>key[:2] == "__"\<close>.\<close>

definition is_special :: "pystr \<Rightarrow> bool" where
  "is_special k = (take 2 k = str ''__'')"

section \<open>cleanup_translation_data\<close>

definition msg_unused :: "pystr \<Rightarrow> pystr" where
  "msg_unused phrase = [39] @ phrase @ [39] @ str '' was not found in the source code.''"

text \<open>The loop over the keys of the loaded file (lines 369-379).\<close>

fun cleanup_report :: "pystr list \<Rightarrow> pystr list \<Rightarrow> pystr list \<Rightarrow> pystr list" where
  "cleanup_report scriptdata [] report = report"
| "cleanup_report scriptdata (phrase # rest) report =
     (if is_special phrase then cleanup_report scriptdata rest report
      else if phrase \<in> set scriptdata then cleanup_report scriptdata rest report
      else cleanup_report scriptdata rest (report @ [msg_unused phrase]))"

text \<open>
  \<^verbatim>\<open>cleanup_translation_data(target_lang)\<close>. The argument is not lowercased. The store
  is saved in \<^verbatim>\<open>transbackup\<close> (line 358), and no later line assigns the global again.
\<close>

definition cleanup_translation_data :: "env \<Rightarrow> pyval \<Rightarrow> state \<Rightarrow> pystr result" where
  "cleanup_translation_data e tgt st =
     (case tgt of
        PyStr t \<Rightarrow>
          if length t = 2 then
            (let scriptdata = scan_list (caller e);
                 transbackup = g_translations st
             in case load_translations e t st of
                  (Inl x, st1) \<Rightarrow> (Inl x, st1)
                | (Inr u, st1) \<Rightarrow>
                    (case keys (g_translations st1) of
                       Inl x \<Rightarrow> (Inl x, st1)
                     | Inr translationfiledata \<Rightarrow>
                         (Inr (join [10] (cleanup_report scriptdata translationfiledata [])), st1)))
          else (Inl (ValueError msg_target_two), st)
      | _ \<Rightarrow> (Inl (ValueError msg_target_two), st))"

section \<open>validate_translation_data\<close>

text \<open>
  \<^verbatim>\<open>s.strip()\<close> removes the white space at both ends; the code points that count as
  white space for a Python string are listed in \<open>is_space\<close>. A value of the file is a
  valid translation when it is a string that is not blank (line 465).
\<close>

definition is_space :: "codepoint \<Rightarrow> bool" where
  "is_space c = ((9 \<le> c \<and> c \<le> 13) \<or> (28 \<le> c \<and> c \<le> 32) \<or> c = 133 \<or> c = 160 \<or> c = 5760
     \<or> (8192 \<le> c \<and> c \<le> 8202) \<or> c = 8232 \<or> c = 8233 \<or> c = 8239 \<or> c = 8287 \<or> c = 12288)"

definition strip :: "pystr \<Rightarrow> pystr" where
  "strip s = rev (dropWhile is_space (rev (dropWhile is_space s)))"

fun valid_translation :: "pyval \<Rightarrow> bool" where
  "valid_translation (PyStr s) = (1 \<le> length (strip s))"
| "valid_translation v = False"

definition msg_missing :: "pystr \<Rightarrow> pystr" where
  "msg_missing key = str ''    '' @ [34] @ key @ [34] @ str '': None,'' @ [10]"

definition msg_incomplete :: "pystr \<Rightarrow> pystr" where
  "msg_incomplete key = str ''(!) Source phrase '' @ [39] @ key @ [39]
     @ str '' exists in file but has no valid translation to return.''"

definition msg_missing_header :: pystr where
  "msg_missing_header = str ''(!) Source phrase for the following keys does not exist on file:''"

text \<open>The loop over the keys of \<^verbatim>\<open>scriptdata\<close> (lines 456-469); it returns the two
  reports, or the exception raised on the way.\<close>

fun validate_loop :: "pyval \<Rightarrow> pystr list \<Rightarrow> pystr list \<Rightarrow> pystr list \<Rightarrow> exn + (pystr list \<times> pystr list)" where
  "validate_loop tr [] missings incompletes = Inr (missings, incompletes)"
| "validate_loop tr (key # rest) missings incompletes =
     (case keys tr of
        Inl x \<Rightarrow> Inl x
      | Inr ks \<Rightarrow>
          if key \<in> set ks then
            (case subscript tr key of
               Inl x \<Rightarrow> Inl x
             | Inr v \<Rightarrow>
                 if valid_translation v then validate_loop tr rest missings incompletes
                 else validate_loop tr rest missings (incompletes @ [msg_incomplete key]))
          else validate_loop tr rest (missings @ [msg_missing key]) incompletes)"

text \<open>The report that is raised as a warning (lines 472-498).\<close>

definition validate_report :: "pystr list \<Rightarrow> pystr list \<Rightarrow> pystr" where
  "validate_report missings incompletes =
     (let report = (if 0 < length missings then incompletes @ [msg_missing_header] @ missings
                    else incompletes);
          text = join [10] report;
          text = (if 0 < length missings then take (length text - 2) text else text)
      in str ''Errors found in translation data:'' @ [10] @ text)"

definition msg_found :: "nat \<Rightarrow> nat \<Rightarrow> pystr" where
  "msg_found n m = str ''Found '' @ str_of_nat n @ str '' unique translatable strings in file, plus ''
     @ str_of_nat m @ str '' special keys. All translation data OK.''"

text \<open>The part of \<^verbatim>\<open>validate_translation_data\<close> after both codes are validated and
  lowercased (lines 413-510). The saved store is put back on line 504 only.\<close>

definition validate_checked :: "env \<Rightarrow> pystr \<Rightarrow> pystr \<Rightarrow> state \<Rightarrow> pystr result" where
  "validate_checked e src tgt st =
     (let scriptdata = scan_dict (special_fields src tgt) (caller e);
          specialkeys = filter (\<lambda>(k, v). is_special k) scriptdata;
          transbackup = g_translations st
      in case load_translations e tgt st of
           (Inl x, st1) \<Rightarrow> (Inl x, st1)
         | (Inr u, st1) \<Rightarrow>
             (case validate_loop (g_translations st1) (map fst scriptdata) [] [] of
                Inl x \<Rightarrow> (Inl x, st1)
              | Inr (missings, incompletes) \<Rightarrow>
                  if 0 < length incompletes \<or> 0 < length missings then
                    (Inl (RuntimeWarning (validate_report missings incompletes)), st1)
                  else (Inr (msg_found (length scriptdata - length specialkeys) (length specialkeys)),
                        st1\<lparr>g_translations := transbackup\<rparr>)))"

fun validate_translation_data :: "env \<Rightarrow> pyval \<Rightarrow> pyval \<Rightarrow> state \<Rightarrow> pystr result" where
  "validate_translation_data e (PyStr s) (PyStr t) st =
     (if length s = 2 then
        (if length t = 2 then validate_checked e (lower e s) (lower e t) st
         else (Inl (ValueError msg_target_two), st))
      else (Inl (ValueError msg_source_two), st))"
| "validate_translation_data e (PyStr s) tgt st =
     (if length s = 2 then (Inl (ValueError msg_target_two), st)
      else (Inl (ValueError msg_source_two), st))"
| "validate_translation_data e src tgt st = (Inl (ValueError msg_source_two), st)"

section \<open>The store invariant\<close>

text \<open>
  A value is a legitimate content of the store when it is the empty dict or the parsed
  content of one file \<^verbatim>\<open><code>.translation\<close> of the directory.
\<close>

definition value_ok :: "env \<Rightarrow> pyval \<Rightarrow> bool" where
  "value_ok e v = (v = PyDict [] \<or> (\<exists>t. files e (t @ str ''.translation'') = Some (Parsed v)))"

definition store_ok :: "env \<Rightarrow> state \<Rightarrow> bool" where
  "store_ok e st = value_ok e (g_translations st)"

section \<open>Notions used to state the claims\<close>

text \<open>
  The file \<^verbatim>\<open><lang>.translation\<close> parses to a dict whose \<^verbatim>\<open>__source_lang\<close> is a
  string that is \<open>src\<close> once lowercased: the candidate \<open>lang\<close> passes the check of
  \<^verbatim>\<open>getlangs\<close>.
\<close>

definition declares :: "env \<Rightarrow> pystr \<Rightarrow> pystr \<Rightarrow> bool" where
  "declares e src lang =
     (case files e (lang @ str ''.translation'') of
        Some (Parsed (PyDict kvs)) \<Rightarrow>
          (case map_of kvs (str ''__source_lang'') of
             Some (PyStr d) \<Rightarrow> lower e d = src
           | _ \<Rightarrow> False)
      | _ \<Rightarrow> False)"

text \<open>
  The lookup idiom, in the words of the specification: the text \<open>s\<close> starts with
  \<^verbatim>\<open>_("literal")\<close> or \<^verbatim>\<open>_('literal')\<close>, that is with an underscore (95), an opening
  parenthesis (40), a quote, the non-empty literal \<open>g\<close>, a quote and a closing
  parenthesis (41). \<open>closes rest m\<close>: in \<open>rest\<close>, a quote and a closing parenthesis
  follow the text \<open>m\<close>.
\<close>

definition closes :: "pystr \<Rightarrow> pystr \<Rightarrow> bool" where
  "closes rest m = (\<exists>q post. is_quote q \<and> rest = m @ [q, 41] @ post)"

definition call_prefix :: "pystr \<Rightarrow> pystr \<Rightarrow> bool" where
  "call_prefix s g = (g \<noteq> [] \<and>
     (\<exists>q1 q2 post. is_quote q1 \<and> is_quote q2 \<and> s = [95, 40, q1] @ g @ [q2, 41] @ post))"

text \<open>The names of the three keys every scan starts from.\<close>

definition special_names :: "pystr list" where
  "special_names = [str ''__source_lang'', str ''__target_lang'', str ''__target_lang_readable'']"

section \<open>Example directories\<close>

text \<open>Every code that is lowercased in the examples is ASCII, so what the library does
  beyond ASCII plays no part in them; the field is set to the identity.\<close>

text \<open>A Polish translation file for an English script that calls \<^verbatim>\<open>_("Hello")\<close>.\<close>

definition pl_file :: pyval where
  "pl_file = PyDict [(str ''__source_lang'', PyStr (str ''en'')),
     (str ''__target_lang'', PyStr (str ''pl'')),
     (str ''__target_lang_readable'', PyStr (str ''Polski'')),
     (str ''Hello'', PyStr (str ''Czesc''))]"

definition pl_dir :: env where
  "pl_dir = \<lparr>files = [str ''pl.translation'' \<mapsto> Parsed pl_file],
     globbed = [str ''pl.translation''],
     caller = str ''print(_('' @ [34] @ str ''Hello'' @ [34] @ str ''))'',
     unicode_lower = (\<lambda>s. s)\<rparr>"

text \<open>A directory without any translation file.\<close>

definition empty_dir :: env where
  "empty_dir = \<lparr>files = Map.empty, globbed = [], caller = [],
     unicode_lower = (\<lambda>s. s)\<rparr>"

text \<open>A file that holds one phrase and none of the three special keys.\<close>

definition bare_file :: pyval where
  "bare_file = PyDict [(str ''Hello'', PyStr (str ''Czesc''))]"

definition bare_dir :: env where
  "bare_dir = \<lparr>files = [str ''pl.translation'' \<mapsto> Parsed bare_file],
     globbed = [str ''pl.translation''],
     caller = str ''print(_('' @ [34] @ str ''Hello'' @ [34] @ str ''))'',
     unicode_lower = (\<lambda>s. s)\<rparr>"

text \<open>A file whose text is a single opening brace: the decoder fails at position 1.\<close>

definition bad_json_dir :: env where
  "bad_json_dir = \<lparr>files = [str ''pl.translation'' \<mapsto> Malformed (str ''{'') 1],
     globbed = [str ''pl.translation''], caller = [],
     unicode_lower = (\<lambda>s. s)\<rparr>"

text \<open>A file with a longer name: trimmed to two characters it names a file that is
  not there.\<close>

definition long_name_dir :: env where
  "long_name_dir = \<lparr>files = [str ''pol.translation'' \<mapsto> Parsed pl_file],
     globbed = [str ''pol.translation''], caller = [],
     unicode_lower = (\<lambda>s. s)\<rparr>"

text \<open>The Polish file with a script that also calls \<^verbatim>\<open>_("Bye")\<close>, which the file
  does not translate.\<close>

definition two_calls_dir :: env where
  "two_calls_dir = \<lparr>files = [str ''pl.translation'' \<mapsto> Parsed pl_file],
     globbed = [str ''pl.translation''],
     caller = str ''print(_('' @ [34] @ str ''Hello'' @ [34] @ str ''))'' @ [10]
       @ str ''print(_('' @ [34] @ str ''Bye'' @ [34] @ str ''))'',
     unicode_lower = (\<lambda>s. s)\<rparr>"

text \<open>A file named after the language \<^verbatim>\<open>en\<close> whose phrases are declared to be French.\<close>

definition fr_file :: pyval where
  "fr_file = PyDict [(str ''__source_lang'', PyStr (str ''fr'')),
     (str ''__target_lang'', PyStr (str ''en'')),
     (str ''__target_lang_readable'', PyStr (str ''English''))]"

definition en_fr_dir :: env where
  "en_fr_dir = \<lparr>files = [str ''en.translation'' \<mapsto> Parsed fr_file],
     globbed = [str ''en.translation''], caller = [],
     unicode_lower = (\<lambda>s. s)\<rparr>"

text \<open>The Polish file beside a German file whose phrases are declared to be French.\<close>

definition de_file :: pyval where
  "de_file = PyDict [(str ''__source_lang'', PyStr (str ''fr'')),
     (str ''__target_lang'', PyStr (str ''de'')),
     (str ''__target_lang_readable'', PyStr (str ''Deutsch''))]"

definition two_lang_dir :: env where
  "two_lang_dir = \<lparr>files = [str ''pl.translation'' \<mapsto> Parsed pl_file,
                              str ''de.translation'' \<mapsto> Parsed de_file],
     globbed = [str ''pl.translation'', str ''de.translation''], caller = [],
     unicode_lower = (\<lambda>s. s)\<rparr>"

text \<open>A script that also calls \<^verbatim>\<open>_("__x")\<close>, with a file that translates it.\<close>

definition dunder_file :: pyval where
  "dunder_file = PyDict [(str ''__source_lang'', PyStr (str ''en'')),
     (str ''__target_lang'', PyStr (str ''pl'')),
     (str ''__target_lang_readable'', PyStr (str ''Polski'')),
     (str ''Hello'', PyStr (str ''Czesc'')),
     (str ''__x'', PyStr (str ''y''))]"

definition dunder_dir :: env where
  "dunder_dir = \<lparr>files = [str ''pl.translation'' \<mapsto> Parsed dunder_file],
     globbed = [str ''pl.translation''],
     caller = str ''print(_('' @ [34] @ str ''Hello'' @ [34] @ str ''))'' @ [10]
       @ str ''print(_('' @ [34] @ str ''__x'' @ [34] @ str ''))'',
     unicode_lower = (\<lambda>s. s)\<rparr>"

text \<open>Three script texts: the call \<^verbatim>\<open>_("Hello")\<close> alone, the call followed by a
  comment on the same line, and the call followed by a commented line.\<close>

definition hello_call :: pystr where
  "hello_call = str ''_('' @ [34] @ str ''Hello'' @ [34] @ str '')''"

definition hello_then_comment :: pystr where
  "hello_then_comment = hello_call @ str ''  # greeting''"

text \<open>A line with two calls, the first in single quotes: \<^verbatim>\<open>x = _('one') + _("two")\<close>.\<close>

definition two_calls_line :: pystr where
  "two_calls_line = str ''x = _('' @ [39] @ str ''one'' @ [39] @ str '') + _('' @ [34] @ str ''two''
     @ [34] @ str '')''"

text \<open>A call in single quotes alone: \<^verbatim>\<open>_('one')\<close>.\<close>

definition single_quoted_call :: pystr where
  "single_quoted_call = str ''_('' @ [39] @ str ''one'' @ [39] @ str '')''"

definition hello_and_ignored :: pystr where
  "hello_and_ignored = hello_call @ [10] @ str ''# _('' @ [34] @ str ''Ignored'' @ [34] @ str '')''"

section \<open>Basic facts\<close>

lemma str_eq_iff [simp]: "str a = str b \<longleftrightarrow> a = b"
  unfolding str_def by (simp add: inj_map_eq_map inj_of_char)

lemma str_append [simp]: "str a @ str b = str (a @ b)"
  by (simp add: str_def)

lemma length_str [simp]: "length (str a) = length a"
  by (simp add: str_def)

lemma take_str [simp]: "take n (str s) = str (take n s)"
  by (simp add: str_def take_map)

lemma lower_ascii [simp]:
  "lower e (str ''EN'') = str ''en''" "lower e (str ''en'') = str ''en''"
  "lower e (str ''PL'') = str ''pl''" "lower e (str ''pl'') = str ''pl''"
  "lower e (str ''FR'') = str ''fr''" "lower e (str ''fr'') = str ''fr''"
  by (simp_all add: lower_def lower_cp_def str_def)

lemma lower_dotted_I: "lower e [304, 97] = [105, 775, 97]"
  by (simp add: lower_def lower_cp_def)

lemma pl_not_dotted: "str ''pl'' \<noteq> [105, 775, 97]"
  by (simp add: str_def)

lemma strip_examples:
  "strip (str ''en'') = str ''en''" "strip (str ''pl'') = str ''pl''"
  "strip (str ''Polski'') = str ''Polski''" "strip (str ''Czesc'') = str ''Czesc''"
  "strip (str ''y'') = str ''y''"
  by (simp_all add: strip_def str_def is_space_def)

lemma sublist_left: "sublist xs ys \<Longrightarrow> sublist xs (ys @ zs)"
  unfolding sublist_def by (metis append.assoc)

lemma sublist_right: "sublist xs zs \<Longrightarrow> sublist xs (ys @ zs)"
  unfolding sublist_def by (metis append.assoc)

lemma sublist_str: "sublist a b \<Longrightarrow> sublist (str a) (str b)"
  unfolding str_def by (rule map_mono_sublist)

section \<open>The store invariant is kept by every operation\<close>

lemma value_ok_empty [simp]: "value_ok e (PyDict [])"
  by (simp add: value_ok_def)

lemma store_ok_fields [simp]:
  "store_ok e (st\<lparr>g_source_lang := a\<rparr>) = store_ok e st"
  "store_ok e (st\<lparr>g_target_lang := b\<rparr>) = store_ok e st"
  "store_ok e (st\<lparr>g_translations := v\<rparr>) = value_ok e v"
  by (simp_all add: store_ok_def)

lemma store_ok_value: "store_ok e st \<Longrightarrow> value_ok e (g_translations st)"
  by (simp add: store_ok_def)

lemma load_translations_raises:
  "load_translations e t st = (Inl x, st') \<Longrightarrow> st' = st"
  by (auto simp: load_translations_def split: option.splits translation_file.splits)

lemma load_translations_ok:
  "load_translations e t st = (r, st') \<Longrightarrow> store_ok e st \<Longrightarrow> store_ok e st'"
  by (auto simp: load_translations_def value_ok_def split: option.splits translation_file.splits)

lemma translator_load_ok:
  "store_ok e st \<Longrightarrow> store_ok e (snd (translator_load e st))"
  by (auto simp: translator_load_def
      split: option.splits prod.splits sum.splits dest: load_translations_ok)

lemma translator_ok:
  "store_ok e st \<Longrightarrow> store_ok e (snd (translator e src tgt st))"
  by (cases "(e, src, tgt, st)" rule: translator.cases)
     (auto simp: Let_def translator_load_ok split: pyval.splits)

lemma get_lang_readable_name_ok:
  "store_ok e st \<Longrightarrow> store_ok e (snd (get_lang_readable_name e lang st))"
  by (auto simp: get_lang_readable_name_def Let_def store_ok_value
      split: pyval.splits prod.splits sum.splits dest: load_translations_ok)

lemma getlangs_check_ok:
  "getlangs_check e src lang st = (r, st') \<Longrightarrow> store_ok e st \<Longrightarrow> store_ok e st'"
  by (auto simp: getlangs_check_def
      split: prod.splits sum.splits if_splits dest: load_translations_ok)

lemma getlangs_loop_ok:
  "value_ok e temptrans \<Longrightarrow> store_ok e st \<Longrightarrow>
     store_ok e (snd (getlangs_loop e src temptrans langs st))"
  by (induction langs arbitrary: st) (auto split: prod.splits sum.splits)

lemma getlangs_snd:
  "snd (getlangs e (PyStr s) st) =
     (if length s = 2
      then snd (getlangs_loop e (lower e s) (g_translations st) (map (take 2) (lower e s # globbed e)) st)
      else st)"
  by (simp add: Let_def split: prod.splits sum.splits del: getlangs_loop.simps list.map)

lemma getlangs_ok:
  "store_ok e st \<Longrightarrow> store_ok e (snd (getlangs e src st))"
proof (cases src)
  case (PyStr s)
  assume "store_ok e st"
  then show ?thesis
    unfolding PyStr getlangs_snd
    by (simp add: getlangs_loop_ok store_ok_value del: getlangs_loop.simps list.map)
qed simp_all

lemma cleanup_ok:
  "store_ok e st \<Longrightarrow> store_ok e (snd (cleanup_translation_data e tgt st))"
  by (auto simp: cleanup_translation_data_def Let_def
      split: pyval.splits prod.splits sum.splits dest: load_translations_ok)

lemma validate_checked_ok:
  "store_ok e st \<Longrightarrow> store_ok e (snd (validate_checked e s t st))"
  by (auto simp: validate_checked_def Let_def store_ok_value
      split: prod.splits sum.splits dest: load_translations_ok)

lemma validate_ok:
  "store_ok e st \<Longrightarrow> store_ok e (snd (validate_translation_data e src tgt st))"
  by (cases "(e, src, tgt, st)" rule: validate_translation_data.cases)
     (auto simp: validate_checked_ok)

text \<open>How the lookup function behaves on a well-formed pair of globals.\<close>

lemma gettext_passthrough:
  assumes "g_source_lang st = Some s" and "length s = 2"
    and "g_target_lang st = None \<or> g_target_lang st = Some s"
  shows "gettext st p = Inr p"
  using assms by (auto simp: gettext_def)

lemma translator_passthrough_identity:
  assumes "length s = 2" and "length (lower e s) = 2"
  shows "fst (translator e (PyStr s) PyNone st) = Inr Gettext"
    and "gettext (snd (translator e (PyStr s) PyNone st)) p = Inr p"
    and "fst (translator e (PyStr s) (PyStr s) st) = Inr Gettext"
    and "gettext (snd (translator e (PyStr s) (PyStr s) st)) p = Inr p"
  using assms by (simp_all add: translator_load_def gettext_def)

lemma msg_not_found_names:
  "sublist p (msg_not_found p t)" "sublist t (msg_not_found p t)"
  unfolding msg_not_found_def
  by ((rule sublist_append_rightI | rule sublist_right)+)+

text \<open>
  Translate mode, as long as both codes keep their two characters when lowercased: a
  phrase of the loaded dict is answered with its value, any other string raises the
  KeyError whose message holds the phrase and the target language.
\<close>

lemma lookup_after_translator:
  assumes "length s = 2" and "length t = 2"
    and "length (lower e s) = 2" and "length (lower e t) = 2"
    and "lower e t \<noteq> lower e s"
    and "files e (lower e t @ str ''.translation'') = Some (Parsed (PyDict kvs))"
  shows "translator e (PyStr s) (PyStr t) st =
           (Inr Gettext, st\<lparr>g_source_lang := Some (lower e s), g_target_lang := Some (lower e t),
                              g_translations := PyDict kvs\<rparr>)"
    and "map_of kvs p = Some v \<Longrightarrow>
           gettext (snd (translator e (PyStr s) (PyStr t) st)) (PyStr p) = Inr v"
    and "map_of kvs p = None \<Longrightarrow>
           gettext (snd (translator e (PyStr s) (PyStr t) st)) (PyStr p)
             = Inl (KeyError (msg_not_found p (lower e t)))"
proof -
  show tr: "translator e (PyStr s) (PyStr t) st =
           (Inr Gettext, st\<lparr>g_source_lang := Some (lower e s), g_target_lang := Some (lower e t),
                              g_translations := PyDict kvs\<rparr>)"
    using assms by (simp add: translator_load_def load_translations_def)
  show "gettext (snd (translator e (PyStr s) (PyStr t) st)) (PyStr p) = Inr v"
    if "map_of kvs p = Some v"
  proof -
    from that have "p \<in> fst ` set kvs"
      by (metis map_of_eq_None_iff option.distinct(1))
    with that assms show ?thesis
      unfolding tr by (simp add: gettext_def gettext_translate_def)
  qed
  show "gettext (snd (translator e (PyStr s) (PyStr t) st)) (PyStr p)
             = Inl (KeyError (msg_not_found p (lower e t)))"
    if "map_of kvs p = None"
  proof -
    from that have "p \<notin> fst ` set kvs"
      by (simp add: map_of_eq_None_iff)
    with assms show ?thesis
      unfolding tr by (simp add: gettext_def gettext_translate_def)
  qed
qed

section \<open>Facts about getlangs\<close>

lemma does_not_match_in_msg: "sublist (str ''does not match'') (msg_mismatch lang d src)"
proof -
  have "sublist ''does not match'' '' which does not match the program''"
    by code_simp
  then have h: "sublist (str ''does not match'') (str '' which does not match the program'')"
    by (rule sublist_str)
  show ?thesis
    unfolding msg_mismatch_def by (rule sublist_left [OF h] | rule sublist_right)+
qed

lemma msg_mismatch_names:
  "sublist lang (msg_mismatch lang d src)" "sublist d (msg_mismatch lang d src)"
  "sublist src (msg_mismatch lang d src)"
  unfolding msg_mismatch_def
  by ((rule sublist_append_rightI | rule sublist_right)+)+

text \<open>An exception that is no RuntimeError passes the handler as it is.\<close>

lemma getlangs_except_not_caught: "\<not> is_RuntimeError x \<Longrightarrow> getlangs_except lang x = x"
  by (simp add: getlangs_except_def)

lemma load_translations_restore:
  "load_translations e t st = (r, st1) \<Longrightarrow> st1\<lparr>g_translations := g_translations st\<rparr> = st"
  by (auto simp: load_translations_def split: option.splits translation_file.splits)

lemma getlangs_check_snd:
  "snd (getlangs_check e src lang st) = snd (load_translations e lang st)"
  by (simp add: getlangs_check_def split: prod.splits sum.splits)

lemma getlangs_check_restore:
  "getlangs_check e src lang st = (r, st1) \<Longrightarrow> st1\<lparr>g_translations := g_translations st\<rparr> = st"
  using getlangs_check_snd [of e src lang st] load_translations_restore [of e lang st]
  by (cases "load_translations e lang st") simp

text \<open>The \<^verbatim>\<open>finally\<close> clause at work: whatever the loop does, the state it leaves is the
  state it started from.\<close>

lemma getlangs_loop_restore:
  "g_translations st = tt \<Longrightarrow> snd (getlangs_loop e src tt langs st) = st"
proof (induction langs)
  case Nil
  then show ?case by simp
next
  case (Cons lang rest)
  show ?case
  proof (cases "lang = src")
    case True
    with Cons show ?thesis by simp
  next
    case False
    obtain r st1 where c: "getlangs_check e src lang st = (r, st1)"
      by (cases "getlangs_check e src lang st")
    from getlangs_check_restore [OF c] Cons.prems
    have "st1\<lparr>g_translations := tt\<rparr> = st" by simp
    with Cons False c show ?thesis
      by (cases r) simp_all
  qed
qed

lemma declaresD:
  "declares e src lang \<Longrightarrow>
     \<exists>kvs d. files e (lang @ str ''.translation'') = Some (Parsed (PyDict kvs))
        \<and> map_of kvs (str ''__source_lang'') = Some (PyStr d) \<and> lower e d = src"
  unfolding declares_def
  by (cases "files e (lang @ str ''.translation'')")
     (auto split: translation_file.splits pyval.splits option.splits)

lemma getlangs_check_declares:
  assumes "declares e src lang"
  shows "fst (getlangs_check e src lang st) = Inr ()"
proof -
  from declaresD [OF assms] obtain kvs d where
    "files e (lang @ str ''.translation'') = Some (Parsed (PyDict kvs))"
    "map_of kvs (str ''__source_lang'') = Some (PyStr d)" "lower e d = src"
    by blast
  then show ?thesis
    by (simp add: getlangs_check_def load_translations_def)
qed

lemma getlangs_loop_skip:
  assumes "\<forall>l\<in>set pre. l = src \<or> declares e src l" and "g_translations st = tt"
  shows "getlangs_loop e src tt (pre @ rest) st = getlangs_loop e src tt rest st"
  using assms
proof (induction pre)
  case Nil
  then show ?case by simp
next
  case (Cons lang pre)
  show ?case
  proof (cases "lang = src")
    case True
    with Cons show ?thesis by simp
  next
    case False
    with Cons.prems have d: "declares e src lang" by simp
    obtain r st1 where c: "getlangs_check e src lang st = (r, st1)"
      by (cases "getlangs_check e src lang st")
    with getlangs_check_declares [OF d, of st] have r: "r = Inr ()" by simp
    from getlangs_check_restore [OF c] Cons.prems
    have "st1\<lparr>g_translations := tt\<rparr> = st" by simp
    with Cons False c r show ?thesis by simp
  qed
qed

lemma getlangs_check_mismatch:
  assumes "files e (c @ str ''.translation'') = Some (Parsed (PyDict kvs))"
    and "map_of kvs (str ''__source_lang'') = Some (PyStr d)"
    and "lower e d \<noteq> src"
  shows "getlangs_check e src c st =
           (Inl (RuntimeError (msg_mismatch c (lower e d) src)), st\<lparr>g_translations := PyDict kvs\<rparr>)"
  using assms by (simp add: getlangs_check_def load_translations_def)

lemma getlangs_loop_mismatch:
  assumes "c \<noteq> src"
    and "files e (c @ str ''.translation'') = Some (Parsed (PyDict kvs))"
    and "map_of kvs (str ''__source_lang'') = Some (PyStr d)"
    and "lower e d \<noteq> src"
  shows "fst (getlangs_loop e src tt (c # post) st) = Inl (RuntimeError (msg_mismatch c (lower e d) src))"
  using assms(1) getlangs_check_mismatch [OF assms(2-4)]
  by (simp add: getlangs_except_def does_not_match_in_msg)

lemma getlangs_fst:
  "length s = 2 \<Longrightarrow>
     fst (getlangs e (PyStr s) st) =
       (case fst (getlangs_loop e (lower e s) (g_translations st) (map (take 2) (lower e s # globbed e)) st) of
          Inl x \<Rightarrow> Inl x
        | Inr u \<Rightarrow> Inr (map (take 2) (lower e s # globbed e)))"
  by (simp add: Let_def split: prod.splits sum.splits del: getlangs_loop.simps list.map)

section \<open>Facts about the scanner\<close>

lemma foldl_scan_list:
  "foldl (\<lambda>scriptdata (g0, g1). if has_hash g0 then scriptdata else scriptdata @ [g1]) acc ms
     = acc @ concat (map (\<lambda>(g0, g1). if has_hash g0 then [] else [g1]) ms)"
  by (induction ms arbitrary: acc) (auto split: prod.splits)

lemma concat_map_filter_lines:
  "concat (map (\<lambda>(g0, g1). if has_hash g0 then [] else [g1])
       (List.map_filter (\<lambda>l. map_option (Pair l) (match_line l)) ls))
     = concat (map (\<lambda>line. case match_line line of None \<Rightarrow> []
                     | Some literal \<Rightarrow> if 35 \<in> set line then [] else [literal]) ls)"
  by (induction ls) (auto simp: List.map_filter_simps has_hash_def split: option.splits)

lemma scan_list_lines:
  "scan_list script
     = concat (map (\<lambda>line. case match_line line of None \<Rightarrow> []
                     | Some literal \<Rightarrow> if 35 \<in> set line then [] else [literal])
                (split_lines script))"
  by (simp add: scan_list_def finditer_def foldl_scan_list concat_map_filter_lines)

lemma scan_pl_dir: "scan_list (caller pl_dir) = [str ''Hello'']"
  by (simp add: scan_list_lines pl_dir_def str_def is_quote_def)

lemma scan_dunder_dir: "scan_list (caller dunder_dir) = [str ''Hello'', str ''__x'']"
  by (simp add: scan_list_lines dunder_dir_def str_def is_quote_def)

lemma scan_two_calls: "scan_list (caller two_calls_dir) = [str ''Hello'', str ''Bye'']"
  by (simp add: scan_list_lines two_calls_dir_def str_def is_quote_def)

text \<open>What the three matching functions compute, in terms of the idiom.\<close>

lemma closes_Nil: "closes (q # p # rest) [] \<longleftrightarrow> is_quote q \<and> p = 41"
  by (auto simp: closes_def)

lemma closes_Cons: "closes (x # rest) (y # m) \<longleftrightarrow> x = y \<and> closes rest m"
  by (auto simp: closes_def)

lemma closes_short: "length rest < 2 \<Longrightarrow> \<not> closes rest m"
  by (auto simp: closes_def)

lemma lazy_literal_Some:
  "lazy_literal acc rest = Some g \<Longrightarrow>
     \<exists>m. g = acc @ m \<and> closes rest m \<and> (\<forall>m'. closes rest m' \<longrightarrow> length m \<le> length m')"
proof (induction acc rest arbitrary: g rule: lazy_literal.induct)
  case (1 acc q p rest)
  show ?case
  proof (cases "is_quote q \<and> p = 41")
    case True
    with 1 have "g = acc" by simp
    moreover from True have "closes (q # p # rest) []" by (simp add: closes_Nil)
    ultimately show ?thesis by (intro exI [of _ "[]"]) simp
  next
    case False
    with 1 have "lazy_literal (acc @ [q]) (p # rest) = Some g" by simp
    from "1.IH" [OF False this] obtain m where
      m: "g = (acc @ [q]) @ m" "closes (p # rest) m"
         "\<forall>m'. closes (p # rest) m' \<longrightarrow> length m \<le> length m'"
      by blast
    have "\<forall>m'. closes (q # p # rest) m' \<longrightarrow> length (q # m) \<le> length m'"
    proof (intro allI impI)
      fix m' assume c: "closes (q # p # rest) m'"
      show "length (q # m) \<le> length m'"
      proof (cases m')
        case Nil
        with c False show ?thesis by (simp add: closes_Nil)
      next
        case (Cons y m'')
        with c have "closes (p # rest) m''" by (simp add: closes_Cons)
        with m(3) Cons show ?thesis by simp
      qed
    qed
    with m show ?thesis
      by (intro exI [of _ "q # m"]) (simp add: closes_Cons)
  qed
qed simp_all

lemma lazy_literal_None:
  "lazy_literal acc rest = None \<Longrightarrow> \<not> closes rest m"
proof (induction acc rest arbitrary: m rule: lazy_literal.induct)
  case (1 acc q p rest)
  then have f: "\<not> (is_quote q \<and> p = 41)" and n: "lazy_literal (acc @ [q]) (p # rest) = None"
    by (auto split: if_splits)
  show ?case
  proof (cases m)
    case Nil
    with f show ?thesis by (simp add: closes_Nil)
  next
    case (Cons y m')
    from "1.IH" [OF f n, of m'] show ?thesis
      unfolding Cons by (simp add: closes_Cons)
  qed
qed (simp_all add: closes_short)

lemma call_prefix_iff:
  "call_prefix s g \<longleftrightarrow>
     (\<exists>q1 c rest m. s = 95 # 40 # q1 # c # rest \<and> is_quote q1 \<and> g = c # m \<and> closes rest m)"
proof
  assume "call_prefix s g"
  then obtain q1 q2 post where h: "g \<noteq> []" "is_quote q1" "is_quote q2"
    "s = [95, 40, q1] @ g @ [q2, 41] @ post"
    unfolding call_prefix_def by blast
  from h(1) obtain c m where g: "g = c # m" by (cases g) auto
  with h have "s = 95 # 40 # q1 # c # (m @ [q2, 41] @ post)" by simp
  moreover from h(3) have "closes (m @ [q2, 41] @ post) m" unfolding closes_def by blast
  ultimately show "\<exists>q1 c rest m. s = 95 # 40 # q1 # c # rest \<and> is_quote q1 \<and> g = c # m \<and> closes rest m"
    using h(2) g by blast
next
  assume "\<exists>q1 c rest m. s = 95 # 40 # q1 # c # rest \<and> is_quote q1 \<and> g = c # m \<and> closes rest m"
  then obtain q1 c rest m where h: "s = 95 # 40 # q1 # c # rest" "is_quote q1" "g = c # m" "closes rest m"
    by blast
  from h(4) obtain q2 post where "is_quote q2" "rest = m @ [q2, 41] @ post"
    unfolding closes_def by blast
  with h show "call_prefix s g"
    unfolding call_prefix_def by auto
qed

lemma match_call_Some:
  assumes "match_call s = Some g"
  shows "call_prefix s g" and "call_prefix s g' \<Longrightarrow> length g \<le> length g'"
proof -
  from assms obtain u l q c rest where s: "s = u # l # q # c # rest"
    by (cases s rule: match_call.cases) auto
  with assms have h: "u = 95" "l = 40" "is_quote q" "lazy_literal [c] rest = Some g"
    by (auto split: if_splits)
  from lazy_literal_Some [OF h(4)] obtain m where
    m: "g = [c] @ m" "closes rest m" "\<forall>m'. closes rest m' \<longrightarrow> length m \<le> length m'"
    by blast
  show "call_prefix s g"
    unfolding call_prefix_iff using s h m by auto
  show "length g \<le> length g'" if "call_prefix s g'"
  proof -
    from that obtain q1' c' rest' m' where
      "s = 95 # 40 # q1' # c' # rest'" "g' = c' # m'" "closes rest' m'"
      unfolding call_prefix_iff by blast
    with s have "rest' = rest" "closes rest m'" "g' = c' # m'" by auto
    with m show ?thesis by auto
  qed
qed

lemma match_call_None:
  assumes "match_call s = None"
  shows "\<not> call_prefix s g"
proof
  assume "call_prefix s g"
  then obtain q1 c rest m where
    h: "s = 95 # 40 # q1 # c # rest" "is_quote q1" "g = c # m" "closes rest m"
    unfolding call_prefix_iff by blast
  with assms have "lazy_literal [c] rest = None" by simp
  from lazy_literal_None [OF this] h(4) show False by blast
qed

text \<open>The line holds a call at the offset \<open>length pre\<close>, and no call starts further right.\<close>

lemma match_line_None:
  "match_line line = None \<Longrightarrow> line = pre @ s \<Longrightarrow> \<not> call_prefix s g"
proof (induction line arbitrary: pre)
  case Nil
  then show ?case by (simp add: call_prefix_def)
next
  case (Cons c cs)
  from Cons.prems(1) have n: "match_line cs = None" "match_call (c # cs) = None"
    by (auto split: option.splits)
  show ?case
  proof (cases pre)
    case Nil
    with Cons.prems(2) n(2) show ?thesis by (simp add: match_call_None)
  next
    case (Cons y pre')
    with Cons.prems(2) have "cs = pre' @ s" by simp
    from Cons.IH [OF n(1) this] show ?thesis .
  qed
qed

lemma match_line_Some:
  "match_line line = Some g \<Longrightarrow>
     \<exists>pre s. line = pre @ s \<and> call_prefix s g
       \<and> (\<forall>g'. call_prefix s g' \<longrightarrow> length g \<le> length g')
       \<and> (\<forall>pre' s' g'. line = pre' @ s' \<and> call_prefix s' g' \<longrightarrow> length pre' \<le> length pre)"
proof (induction line)
  case Nil
  then show ?case by simp
next
  case (Cons c cs)
  show ?case
  proof (cases "match_line cs")
    case (Some g0)
    with Cons.prems have "g0 = g" by simp
    with Some Cons.IH obtain pre s where
      h: "cs = pre @ s" "call_prefix s g" "\<forall>g'. call_prefix s g' \<longrightarrow> length g \<le> length g'"
         "\<forall>pre' s' g'. cs = pre' @ s' \<and> call_prefix s' g' \<longrightarrow> length pre' \<le> length pre"
      by blast
    have "\<forall>pre' s' g'. c # cs = pre' @ s' \<and> call_prefix s' g' \<longrightarrow> length pre' \<le> length (c # pre)"
    proof (intro allI impI)
      fix pre' s' g' assume a: "c # cs = pre' @ s' \<and> call_prefix s' g'"
      show "length pre' \<le> length (c # pre)"
      proof (cases pre')
        case Nil
        then show ?thesis by simp
      next
        case (Cons y pre'')
        with a have "cs = pre'' @ s' \<and> call_prefix s' g'" by simp
        with h(4) Cons show ?thesis by auto
      qed
    qed
    with h show ?thesis
      by (intro exI [of _ "c # pre"] exI [of _ s]) simp
  next
    case None
    with Cons.prems have m: "match_call (c # cs) = Some g" by simp
    have "\<forall>pre' s' g'. c # cs = pre' @ s' \<and> call_prefix s' g' \<longrightarrow> length pre' \<le> length ([]::pystr)"
    proof (intro allI impI)
      fix pre' s' g' assume a: "c # cs = pre' @ s' \<and> call_prefix s' g'"
      show "length pre' \<le> length ([]::pystr)"
      proof (cases pre')
        case Nil
        then show ?thesis by simp
      next
        case (Cons y pre'')
        with a have "cs = pre'' @ s'" "call_prefix s' g'" by simp_all
        with match_line_None [OF None] show ?thesis by blast
      qed
    qed
    with match_call_Some [OF m] show ?thesis
      by (intro exI [of _ "[]"] exI [of _ "c # cs"]) auto
  qed
qed

lemma call_prefix_same_length:
  assumes "call_prefix s g" and "call_prefix s g'" and "length g = length g'"
  shows "g = g'"
proof -
  from assms(1) obtain q1 q2 post where a: "s = [95, 40, q1] @ g @ [q2, 41] @ post"
    unfolding call_prefix_def by blast
  from assms(2) obtain q1' q2' post' where b: "s = [95, 40, q1'] @ g' @ [q2', 41] @ post'"
    unfolding call_prefix_def by blast
  from a b have "g @ ([q2, 41] @ post) = g' @ ([q2', 41] @ post')" by simp
  with assms(3) show ?thesis by (metis append_eq_append_conv)
qed

lemma match_line_None_iff:
  "match_line line = None \<longleftrightarrow> (\<forall>pre s g. line = pre @ s \<longrightarrow> \<not> call_prefix s g)"
proof
  assume "match_line line = None"
  then show "\<forall>pre s g. line = pre @ s \<longrightarrow> \<not> call_prefix s g"
    using match_line_None by blast
next
  assume n: "\<forall>pre s g. line = pre @ s \<longrightarrow> \<not> call_prefix s g"
  show "match_line line = None"
  proof (cases "match_line line")
    case (Some g)
    from match_line_Some [OF this] n show ?thesis by blast
  qed simp
qed

lemma match_line_Some_iff:
  "match_line line = Some g \<longleftrightarrow>
     (\<exists>pre s. line = pre @ s \<and> call_prefix s g
       \<and> (\<forall>g'. call_prefix s g' \<longrightarrow> length g \<le> length g')
       \<and> (\<forall>pre' s' g'. line = pre' @ s' \<and> call_prefix s' g' \<longrightarrow> length pre' \<le> length pre))"
  (is "?L \<longleftrightarrow> ?R")
proof
  assume ?L
  then show ?R by (rule match_line_Some)
next
  assume ?R
  then obtain pre s where
    h: "line = pre @ s" "call_prefix s g" "\<forall>g'. call_prefix s g' \<longrightarrow> length g \<le> length g'"
       "\<forall>pre' s' g'. line = pre' @ s' \<and> call_prefix s' g' \<longrightarrow> length pre' \<le> length pre"
    by blast
  show ?L
  proof (cases "match_line line")
    case None
    with h(1,2) show ?thesis using match_line_None by blast
  next
    case (Some g0)
    from match_line_Some [OF this] obtain pre0 s0 where
      k: "line = pre0 @ s0" "call_prefix s0 g0" "\<forall>g'. call_prefix s0 g' \<longrightarrow> length g0 \<le> length g'"
         "\<forall>pre' s' g'. line = pre' @ s' \<and> call_prefix s' g' \<longrightarrow> length pre' \<le> length pre0"
      by blast
    from h(1,2) k(4) have "length pre \<le> length pre0" by blast
    moreover from k(1,2) h(4) have "length pre0 \<le> length pre" by blast
    ultimately have "length pre = length pre0" by simp
    with h(1) k(1) have "pre = pre0" "s = s0" by (simp_all add: append_eq_append_conv)
    with h k have "length g \<le> length g0" "length g0 \<le> length g" "call_prefix s g0" by auto
    with h(2) have "g = g0" by (intro call_prefix_same_length [of s]) simp_all
    with Some show ?thesis by simp
  qed
qed

lemma split_lines_nonempty: "split_lines s \<noteq> []"
  by (induction s) (auto split: list.splits)

lemma join_Cons: "ls \<noteq> [] \<Longrightarrow> join sep (l # ls) = l @ sep @ join sep ls"
  by (cases ls) simp_all

lemma join_split_lines: "join [10] (split_lines s) = s"
proof (induction s)
  case Nil
  show ?case by simp
next
  case (Cons c cs)
  show ?case
  proof (cases "c = 10")
    case True
    with Cons show ?thesis by (simp add: join_Cons split_lines_nonempty)
  next
    case False
    obtain l ls where sp: "split_lines cs = l # ls"
      using split_lines_nonempty [of cs] by (cases "split_lines cs") auto
    with Cons have "join [10] (l # ls) = cs" by simp
    then have "join [10] ((c # l) # ls) = c # cs"
      by (cases ls) simp_all
    with False sp show ?thesis by simp
  qed
qed

lemma split_lines_no_newline: "l \<in> set (split_lines s) \<Longrightarrow> 10 \<notin> set l"
proof (induction s arbitrary: l)
  case Nil
  then show ?case by simp
next
  case (Cons c cs)
  then show ?case
    by (cases "split_lines cs") (auto split: if_splits)
qed

text \<open>The dict loop adds the literals the list loop collects, in the same order.\<close>

lemma foldl_scan_dict:
  "foldl (\<lambda>data (g0, g1). if has_hash g0 then data else dict_update data g1 v) seed ms
     = foldl (\<lambda>data p. dict_update data p v) seed
         (concat (map (\<lambda>(g0, g1). if has_hash g0 then [] else [g1]) ms))"
  by (induction ms arbitrary: seed) (auto split: prod.splits)

lemma scan_dict_scan_list:
  "scan_dict seed script = foldl (\<lambda>data p. dict_update data p (PyStr [])) seed (scan_list script)"
  by (simp add: scan_dict_def scan_list_def foldl_scan_dict foldl_scan_list)

lemma keys_dict_update:
  "map fst (dict_update d k v) = (if k \<in> fst ` set d then map fst d else map fst d @ [k])"
proof (induction d)
  case Nil
  show ?case by simp
next
  case (Cons kv d)
  show ?case
  proof (cases "fst kv = k")
    case True
    then show ?thesis by (cases kv) simp
  next
    case False
    with Cons show ?thesis by (cases kv) auto
  qed
qed

lemma set_keys_dict_update: "fst ` set (dict_update d k v) = insert k (fst ` set d)"
proof -
  have "set (map fst (dict_update d k v)) = insert k (fst ` set d)"
    unfolding keys_dict_update by auto
  then show ?thesis by simp
qed

lemma set_keys_foldl:
  "fst ` set (foldl (\<lambda>data p. dict_update data p v) seed ps) = fst ` set seed \<union> set ps"
  by (induction ps arbitrary: seed) (simp_all add: set_keys_dict_update)

lemma distinct_keys_foldl:
  "distinct (map fst seed) \<Longrightarrow>
     distinct (map fst (foldl (\<lambda>data p. dict_update data p v) seed ps))"
  by (induction ps arbitrary: seed) (simp_all add: keys_dict_update)

lemma keys_special_fields: "fst ` set (special_fields s t) = set special_names"
  "distinct (map fst (special_fields s t))"
  by (auto simp: special_fields_def special_names_def)

lemma keys_scan_dict:
  "fst ` set (scan_dict (special_fields s t) script) = set special_names \<union> set (scan_list script)"
  "distinct (map fst (scan_dict (special_fields s t) script))"
  by (simp_all add: scan_dict_scan_list set_keys_foldl distinct_keys_foldl keys_special_fields)

section \<open>Facts about the validation\<close>

lemma special_names_special: "k \<in> set special_names \<Longrightarrow> is_special k"
  by (auto simp: special_names_def is_special_def)

lemma card_special_names: "card (set special_names) = 3"
  by (simp add: special_names_def)

lemma length_filter_keys:
  "length (filter (\<lambda>(k, v). P k) d) = length (filter P (map fst d))"
  by (induction d) auto

lemma length_filter_distinct:
  "distinct ks \<Longrightarrow> length (filter P ks) = card {x \<in> set ks. P x}"
proof -
  have "{x. P x} \<inter> set ks = {x \<in> set ks. P x}" by auto
  then show "distinct ks \<Longrightarrow> length (filter P ks) = card {x \<in> set ks. P x}"
    by (simp add: distinct_length_filter)
qed

lemma card_filter_remdups: "card {p \<in> set xs. P p} = length (remdups (filter P xs))"
proof -
  have "{p \<in> set xs. P p} = set (filter P xs)" by auto
  then show ?thesis by (simp only: length_remdups_card_conv)
qed

lemma count_special:
  "length (filter (\<lambda>(k, v). is_special k) (scan_dict (special_fields s t) script))
     = 3 + card ({p \<in> set (scan_list script). is_special p} - set special_names)"
proof -
  let ?d = "scan_dict (special_fields s t) script"
  let ?ks = "map fst ?d"
  let ?A = "{p \<in> set (scan_list script). is_special p}"
  have ks: "set ?ks = set special_names \<union> set (scan_list script)"
    using keys_scan_dict(1) [of s t script] by simp
  have "length (filter (\<lambda>(k, v). is_special k) ?d) = length (filter is_special ?ks)"
    by (rule length_filter_keys)
  also have "\<dots> = card {x \<in> set ?ks. is_special x}"
    by (rule length_filter_distinct) (rule keys_scan_dict(2))
  also have "{x \<in> set ?ks. is_special x} = set special_names \<union> (?A - set special_names)"
    unfolding ks by (auto simp: special_names_special)
  also have "card \<dots> = card (set special_names) + card (?A - set special_names)"
    by (intro card_Un_disjoint) auto
  finally show ?thesis
    by (simp only: card_special_names)
qed

lemma count_plain:
  "length (scan_dict (special_fields s t) script)
     - length (filter (\<lambda>(k, v). is_special k) (scan_dict (special_fields s t) script))
     = card {p \<in> set (scan_list script). \<not> is_special p}"
proof -
  let ?d = "scan_dict (special_fields s t) script"
  let ?ks = "map fst ?d"
  have ks: "set ?ks = set special_names \<union> set (scan_list script)"
    using keys_scan_dict(1) [of s t script] by simp
  have a: "length (filter (\<lambda>(k, v). is_special k) ?d) = length (filter is_special ?ks)"
    by (rule length_filter_keys)
  have b: "length (filter is_special ?ks) + length (filter (\<lambda>k. \<not> is_special k) ?ks) = length ?ks"
    by (rule sum_length_filter_compl)
  have c: "length ?ks = length ?d"
    by (rule length_map)
  have "length ?d - length (filter (\<lambda>(k, v). is_special k) ?d)
      = length (filter (\<lambda>k. \<not> is_special k) ?ks)"
    using a b c by linarith
  also have "\<dots> = card {x \<in> set ?ks. \<not> is_special x}"
    by (rule length_filter_distinct) (rule keys_scan_dict(2))
  also have "{x \<in> set ?ks. \<not> is_special x} = {p \<in> set (scan_list script). \<not> is_special p}"
    unfolding ks by (auto simp: special_names_special)
  finally show ?thesis .
qed

lemma validate_loop_all_valid:
  assumes "\<forall>k\<in>set ks. \<exists>v. map_of kvs k = Some v \<and> valid_translation v"
  shows "validate_loop (PyDict kvs) ks missings incompletes = Inr (missings, incompletes)"
  using assms
proof (induction ks)
  case Nil
  then show ?case by simp
next
  case (Cons k ks)
  then obtain v where v: "map_of kvs k = Some v" "valid_translation v" by auto
  then have "k \<in> set (map fst kvs)"
    by (metis map_of_eq_None_iff option.distinct(1) set_map)
  with Cons v show ?case by simp
qed

text \<open>What a validation without findings returns, and that it puts the store back.\<close>

lemma validate_all_valid:
  assumes "length s = 2" and "length t = 2"
    and "files e (lower e t @ str ''.translation'') = Some (Parsed (PyDict kvs))"
    and "\<forall>k\<in>set special_names \<union> set (scan_list (caller e)).
           \<exists>v. map_of kvs k = Some v \<and> valid_translation v"
  shows "validate_translation_data e (PyStr s) (PyStr t) st =
     (Inr (msg_found
             (length (remdups (filter (\<lambda>p. \<not> is_special p) (scan_list (caller e)))))
             (3 + length (remdups (filter (\<lambda>p. is_special p \<and> p \<notin> set special_names)
                                     (scan_list (caller e)))))),
      st)"
proof -
  let ?d = "scan_dict (special_fields (lower e s) (lower e t)) (caller e)"
  have keys: "set (map fst ?d) = set special_names \<union> set (scan_list (caller e))"
    using keys_scan_dict(1) [of "lower e s" "lower e t" "caller e"] by simp
  have loop: "validate_loop (PyDict kvs) (map fst ?d) [] [] = Inr ([], [])"
    by (rule validate_loop_all_valid) (use assms(4) keys in auto)
  have n: "length ?d - length (filter (\<lambda>(k, v). is_special k) ?d)
      = length (remdups (filter (\<lambda>p. \<not> is_special p) (scan_list (caller e))))"
    by (simp only: count_plain card_filter_remdups)
  have "{p \<in> set (scan_list (caller e)). is_special p} - set special_names
      = {p \<in> set (scan_list (caller e)). is_special p \<and> p \<notin> set special_names}"
    by auto
  then have m: "length (filter (\<lambda>(k, v). is_special k) ?d)
      = 3 + length (remdups (filter (\<lambda>p. is_special p \<and> p \<notin> set special_names)
                                     (scan_list (caller e))))"
    by (simp only: count_special card_filter_remdups)
  have "validate_checked e (lower e s) (lower e t) st =
     (Inr (msg_found (length ?d - length (filter (\<lambda>(k, v). is_special k) ?d))
                     (length (filter (\<lambda>(k, v). is_special k) ?d))), st)"
    using assms(3) loop
    by (simp add: validate_checked_def load_translations_def Let_def)
  then have "validate_checked e (lower e s) (lower e t) st =
     (Inr (msg_found
             (length (remdups (filter (\<lambda>p. \<not> is_special p) (scan_list (caller e)))))
             (3 + length (remdups (filter (\<lambda>p. is_special p \<and> p \<notin> set special_names)
                                     (scan_list (caller e)))))),
      st)"
    by (simp only: n) (simp only: m)
  then show ?thesis
    using assms(1,2) by simp
qed

section \<open>Claims\<close>

text \<open>
  C1. For every valid two-character code L, after \<^verbatim>\<open>translator(L, L)\<close> or
  \<^verbatim>\<open>translator(L, None)\<close> the returned lookup function is the identity and never raises.
  The code checks the length of the code before it lowercases it, and \<^verbatim>\<open>__gettext\<close>
  checks the length of the stored, lowercased code. For the two-character code made of
  U+0130 and the letter a the stored code has three code points: \<^verbatim>\<open>translator\<close> returns
  the lookup function, and every lookup raises the RuntimeError for a source language
  that was never set. (\<open>translator_passthrough_identity\<close> above is the identity for the
  codes that keep their length.)
\<close>

theorem passthrough_lookup_raises_after_dotted_I:
  "fst (translator e (PyStr [304, 97]) PyNone st) = Inr Gettext
   \<and> gettext (snd (translator e (PyStr [304, 97]) PyNone st)) p = Inl (RuntimeError msg_source_unset)
   \<and> fst (translator e (PyStr [304, 97]) (PyStr [304, 97]) st) = Inr Gettext
   \<and> gettext (snd (translator e (PyStr [304, 97]) (PyStr [304, 97]) st)) p
       = Inl (RuntimeError msg_source_unset)"
  by (simp add: translator_load_def gettext_def lower_dotted_I)

text \<open>
  C2. After \<^verbatim>\<open>translator(src, tgt)\<close> with valid codes, a target that differs from the
  source and a loaded mapping, the lookup of a phrase of the mapping returns its value
  and the lookup of any other phrase raises a KeyError naming the phrase and the target
  language. With the source code made of U+0130 and the letter a and the target
  \<^verbatim>\<open>pl\<close>, \<^verbatim>\<open>translator\<close> loads the Polish file and returns the lookup function, and the
  lookup of the phrase \<^verbatim>\<open>Hello\<close>, which the file maps, raises the RuntimeError for a
  source language that was never set. (\<open>lookup_after_translator\<close> above is the claim for
  the codes that keep their length.)
\<close>

theorem translate_lookup_raises_after_dotted_I:
  "translator pl_dir (PyStr [304, 97]) (PyStr (str ''pl'')) st
     = (Inr Gettext, st\<lparr>g_source_lang := Some [105, 775, 97], g_target_lang := Some (str ''pl''),
          g_translations := pl_file\<rparr>)
   \<and> subscript pl_file (str ''Hello'') = Inr (PyStr (str ''Czesc''))
   \<and> gettext (snd (translator pl_dir (PyStr [304, 97]) (PyStr (str ''pl'')) st)) (PyStr (str ''Hello''))
     = Inl (RuntimeError msg_source_unset)"
  by (simp add: translator_load_def load_translations_def pl_dir_def gettext_def
      lower_dotted_I pl_not_dotted)
     (simp add: pl_file_def)

text \<open>
  C3. Every operation that swaps the store for a while puts the saved store back on
  every way out. Only \<^verbatim>\<open>getlangs\<close> does (\<open>getlangs_loop_restore\<close> above).
  \<^verbatim>\<open>cleanup_translation_data\<close> saves the store and never assigns it again: after a
  normal return the store holds the file it loaded. \<^verbatim>\<open>validate_translation_data\<close> puts
  the store back only before its normal return: when it raises its warning the store
  holds the loaded file. \<^verbatim>\<open>get_lang_readable_name\<close> has no handler around the
  subscript: when the file lacks the readable name the store holds the loaded file.
  Each call below starts from the empty store.
\<close>

theorem store_left_swapped:
  "cleanup_translation_data pl_dir (PyStr (str ''pl'')) initial
     = (Inr [], initial\<lparr>g_translations := pl_file\<rparr>)
   \<and> validate_translation_data two_calls_dir (PyStr (str ''en'')) (PyStr (str ''pl'')) initial
     = (Inl (RuntimeWarning (validate_report [msg_missing (str ''Bye'')] [])),
        initial\<lparr>g_translations := pl_file\<rparr>)
   \<and> get_lang_readable_name bare_dir (PyStr (str ''pl'')) initial
     = (Inl (KeyError (str ''__target_lang_readable'')), initial\<lparr>g_translations := bare_file\<rparr>)
   \<and> g_translations initial = PyDict []
   \<and> pl_file \<noteq> PyDict [] \<and> bare_file \<noteq> PyDict []"
proof -
  have "cleanup_translation_data pl_dir (PyStr (str ''pl'')) initial
     = (Inr [], initial\<lparr>g_translations := pl_file\<rparr>)"
    by (simp add: cleanup_translation_data_def load_translations_def scan_pl_dir)
       (simp add: pl_dir_def pl_file_def is_special_def str_def)
  moreover have "validate_translation_data two_calls_dir (PyStr (str ''en'')) (PyStr (str ''pl'')) initial
     = (Inl (RuntimeWarning (validate_report [msg_missing (str ''Bye'')] [])),
        initial\<lparr>g_translations := pl_file\<rparr>)"
    by (simp add: validate_checked_def load_translations_def scan_dict_scan_list scan_two_calls Let_def)
       (simp add: two_calls_dir_def pl_file_def special_fields_def strip_examples)
  moreover have "get_lang_readable_name bare_dir (PyStr (str ''pl'')) initial
     = (Inl (KeyError (str ''__target_lang_readable'')), initial\<lparr>g_translations := bare_file\<rparr>)"
    by (simp add: get_lang_readable_name_def load_translations_def bare_dir_def bare_file_def)
  ultimately show ?thesis
    by (simp add: initial_def pl_file_def bare_file_def)
qed

text \<open>
  C4. The store invariant holds at all times: the store is either empty (as at the start,
  and as \<^verbatim>\<open>translator\<close> sets it when no distinct target is given) or holds the fully
  parsed content of one translation file. The store changes only by whole assignments: the
  value \<^verbatim>\<open>json.load\<close> returned, a value saved earlier, or the empty dict. So the
  invariant holds at the start; \<^verbatim>\<open>__load_translations\<close> keeps it and, when it raises,
  leaves the state as it was; and every public operation that touches the store keeps it
  on every way out, also when it raises.
\<close>

theorem translation_store_invariant:
  assumes "store_ok e st"
  shows "store_ok e initial
       \<and> store_ok e (snd (load_translations e t st))
       \<and> (\<forall>x. fst (load_translations e t st) = Inl x \<longrightarrow> snd (load_translations e t st) = st)
       \<and> store_ok e (snd (translator e src tgt st))
       \<and> (length s = 2 \<longrightarrow> g_translations (snd (translator e (PyStr s) PyNone st)) = PyDict []
                         \<and> g_translations (snd (translator e (PyStr s) (PyStr s) st)) = PyDict [])
       \<and> store_ok e (snd (get_lang_readable_name e lang st))
       \<and> store_ok e (snd (getlangs e src st))
       \<and> store_ok e (snd (cleanup_translation_data e tgt st))
       \<and> store_ok e (snd (validate_translation_data e src tgt st))"
proof -
  have "store_ok e initial"
    by (simp add: store_ok_def initial_def)
  moreover have "store_ok e (snd (load_translations e t st))"
    using assms load_translations_ok [of e t st] by (cases "load_translations e t st") simp
  moreover have "\<forall>x. fst (load_translations e t st) = Inl x \<longrightarrow> snd (load_translations e t st) = st"
    using load_translations_raises [of e t st] by (cases "load_translations e t st") simp
  moreover have "length s = 2 \<longrightarrow> g_translations (snd (translator e (PyStr s) PyNone st)) = PyDict []
                         \<and> g_translations (snd (translator e (PyStr s) (PyStr s) st)) = PyDict []"
    by (simp add: translator_load_def)
  ultimately show ?thesis
    using assms
    by (simp add: translator_ok get_lang_readable_name_ok getlangs_ok cleanup_ok validate_ok)
qed

theorem translation_store_invariant_witness:
  "store_ok pl_dir initial
   \<and> load_translations pl_dir (str ''fr'') initial
       = (Inl (FileNotFoundError (msg_no_file (str ''fr''))), initial)
   \<and> g_translations (snd (translator pl_dir (PyStr (str ''en'')) (PyStr (str ''pl'')) initial)) = pl_file
   \<and> store_ok pl_dir (snd (translator pl_dir (PyStr (str ''en'')) (PyStr (str ''pl'')) initial))
   \<and> g_translations (snd (translator pl_dir (PyStr (str ''en'')) PyNone initial)) = PyDict []"
  using translation_store_invariant
    [of pl_dir initial "str ''fr''" "PyStr (str ''en'')" "PyStr (str ''pl'')" "str ''en''"]
  by (simp add: store_ok_def initial_def load_translations_def pl_dir_def translator_load_def)

text \<open>
  C5. In \<^verbatim>\<open>getlangs\<close>, any failure of a candidate other than the source-language
  mismatch (a missing file, malformed JSON, a file without \<^verbatim>\<open>__source_lang\<close>) is caught
  and raised again as the RuntimeError "Could not load the translation file for ...".
  The handler is \<^verbatim>\<open>except RuntimeError\<close>, and none of these failures is a RuntimeError
  (\<open>getlangs_except_not_caught\<close> above): the JSONDecodeError, the KeyError and the
  FileNotFoundError leave \<^verbatim>\<open>getlangs\<close> as they were raised.
\<close>

theorem getlangs_load_failures_not_wrapped:
  "getlangs bad_json_dir (PyStr (str ''en'')) initial
     = (Inl (JSONDecodeError (msg_bad_json (str ''pl'')) (str ''{'') 1), initial)
   \<and> getlangs bare_dir (PyStr (str ''en'')) initial
     = (Inl (KeyError (str ''__source_lang'')), initial)
   \<and> getlangs long_name_dir (PyStr (str ''en'')) initial
     = (Inl (FileNotFoundError (msg_no_file (str ''po''))), initial)"
  by (simp add: getlangs_check_def getlangs_except_def load_translations_def
       bad_json_dir_def bare_dir_def bare_file_def long_name_dir_def initial_def Let_def)

text \<open>
  C6. \<^verbatim>\<open>getlangs(source_lang)\<close> returns the lowercased source language followed by the
  discovered names trimmed to two characters, and fails with the mismatch error naming
  both codes if some discovered file declares another source language. As stated the
  second half fails: a candidate equal to the source language is skipped without being
  loaded (lines 229-231), so a file \<^verbatim>\<open>en.translation\<close> that declares French phrases is
  not noticed when the source language is \<^verbatim>\<open>en\<close>.
\<close>

theorem getlangs_skips_file_named_as_source:
  "globbed en_fr_dir = [str ''en.translation'']
   \<and> files en_fr_dir (str ''en.translation'') = Some (Parsed fr_file)
   \<and> subscript fr_file (str ''__source_lang'') = Inr (PyStr (str ''fr''))
   \<and> lower en_fr_dir (str ''fr'') \<noteq> lower en_fr_dir (str ''en'')
   \<and> getlangs en_fr_dir (PyStr (str ''en'')) initial = (Inr [str ''en'', str ''en''], initial)"
  by (simp add: en_fr_dir_def fr_file_def Let_def)

text \<open>
  C6, as amended. For a source code of two characters whose lowercase form has two
  characters as well: when every discovered name, trimmed to two characters, is the
  source language or names a file that declares the source language, \<^verbatim>\<open>getlangs\<close>
  returns the lowercased source language followed by the trimmed names in discovery
  order; a list it returns is always that list; the state after the call is the state
  before it, whether it returns or raises; and when, in that order, every candidate before
  some candidate \<open>c\<close> is the source language or has a file that declares the source
  language, \<open>c\<close> is not the source language, and the file \<^verbatim>\<open><c>.translation\<close> holds a
  string \<^verbatim>\<open>__source_lang\<close> that, lowercased, is not the source language, the call raises
  the RuntimeError whose message holds \<open>c\<close>, the declared language and the source
  language.
\<close>

theorem getlangs_result:
  assumes "length s = 2" and "length (lower e s) = 2"
  shows "((\<forall>l\<in>set (map (take 2) (globbed e)). l = lower e s \<or> declares e (lower e s) l) \<longrightarrow>
            getlangs e (PyStr s) st = (Inr (lower e s # map (take 2) (globbed e)), st))
       \<and> (\<forall>langs st'. getlangs e (PyStr s) st = (Inr langs, st') \<longrightarrow>
            langs = lower e s # map (take 2) (globbed e))
       \<and> snd (getlangs e (PyStr s) st) = st
       \<and> (\<forall>pre c post kvs d.
            map (take 2) (globbed e) = pre @ c # post
            \<and> (\<forall>l\<in>set pre. l = lower e s \<or> declares e (lower e s) l)
            \<and> c \<noteq> lower e s
            \<and> files e (c @ str ''.translation'') = Some (Parsed (PyDict kvs))
            \<and> map_of kvs (str ''__source_lang'') = Some (PyStr d)
            \<and> lower e d \<noteq> lower e s
            \<longrightarrow> fst (getlangs e (PyStr s) st)
                  = Inl (RuntimeError (msg_mismatch c (lower e d) (lower e s)))
              \<and> sublist c (msg_mismatch c (lower e d) (lower e s))
              \<and> sublist (lower e d) (msg_mismatch c (lower e d) (lower e s))
              \<and> sublist (lower e s) (msg_mismatch c (lower e d) (lower e s)))"
proof (intro conjI allI impI)
  let ?src = "lower e s" and ?tt = "g_translations st"
  let ?langs = "map (take 2) (?src # globbed e)"
  assume a: "\<forall>l\<in>set (map (take 2) (globbed e)). l = ?src \<or> declares e ?src l"
  have "getlangs_loop e ?src ?tt (?langs @ []) st = getlangs_loop e ?src ?tt [] st"
    using a assms(2) by (intro getlangs_loop_skip) simp_all
  then have "getlangs_loop e ?src ?tt ?langs st = (Inr (), st)"
    by simp
  then show "getlangs e (PyStr s) st = (Inr (lower e s # map (take 2) (globbed e)), st)"
    using assms by (simp add: Let_def del: getlangs_loop.simps)
next
  fix langs st'
  assume "getlangs e (PyStr s) st = (Inr langs, st')"
  with assms show "langs = lower e s # map (take 2) (globbed e)"
    by (auto simp: Let_def split: prod.splits sum.splits simp del: getlangs_loop.simps)
next
  show "snd (getlangs e (PyStr s) st) = st"
    unfolding getlangs_snd using assms(1)
    by (simp add: getlangs_loop_restore del: getlangs_loop.simps list.map)
next
  fix pre c post kvs d
  assume h: "map (take 2) (globbed e) = pre @ c # post
            \<and> (\<forall>l\<in>set pre. l = lower e s \<or> declares e (lower e s) l)
            \<and> c \<noteq> lower e s
            \<and> files e (c @ str ''.translation'') = Some (Parsed (PyDict kvs))
            \<and> map_of kvs (str ''__source_lang'') = Some (PyStr d)
            \<and> lower e d \<noteq> lower e s"
  let ?src = "lower e s" and ?tt = "g_translations st"
  have "getlangs_loop e ?src ?tt (map (take 2) (?src # globbed e)) st
          = getlangs_loop e ?src ?tt ((?src # pre) @ c # post) st"
    using h assms(2) by simp
  also have "\<dots> = getlangs_loop e ?src ?tt (c # post) st"
    using h by (intro getlangs_loop_skip) simp_all
  finally have "fst (getlangs_loop e ?src ?tt (map (take 2) (?src # globbed e)) st)
          = Inl (RuntimeError (msg_mismatch c (lower e d) ?src))"
    using h getlangs_loop_mismatch [of c ?src e kvs d ?tt post st] by simp
  then show "fst (getlangs e (PyStr s) st)
      = Inl (RuntimeError (msg_mismatch c (lower e d) (lower e s)))"
    using assms(1) by (simp add: getlangs_fst del: getlangs.simps getlangs_loop.simps list.map)
qed (rule msg_mismatch_names)+

theorem getlangs_result_witness:
  "getlangs pl_dir (PyStr (str ''EN'')) initial = (Inr [str ''en'', str ''pl''], initial)
   \<and> getlangs two_lang_dir (PyStr (str ''EN'')) initial
       = (Inl (RuntimeError (msg_mismatch (str ''de'') (str ''fr'') (str ''en''))), initial)
   \<and> sublist (str ''de'') (msg_mismatch (str ''de'') (str ''fr'') (str ''en''))
   \<and> sublist (str ''fr'') (msg_mismatch (str ''de'') (str ''fr'') (str ''en''))
   \<and> sublist (str ''en'') (msg_mismatch (str ''de'') (str ''fr'') (str ''en''))"
proof -
  have l: "length (str ''EN'') = 2" "length (lower e (str ''EN'')) = 2" for e
    by simp_all
  have pl: "declares two_lang_dir (str ''en'') (str ''pl'')"
    "declares pl_dir (str ''en'') (str ''pl'')"
    by (simp_all add: declares_def two_lang_dir_def pl_dir_def pl_file_def)
  have all: "\<forall>l\<in>set (map (take 2) (globbed pl_dir)).
      l = lower pl_dir (str ''EN'') \<or> declares pl_dir (lower pl_dir (str ''EN'')) l"
    using pl(2) by (simp add: pl_dir_def)
  from getlangs_result [OF l, of pl_dir initial, THEN conjunct1, THEN mp, OF all]
  have en: "getlangs pl_dir (PyStr (str ''EN'')) initial = (Inr [str ''en'', str ''pl''], initial)"
    by (simp add: pl_dir_def)
  note r = getlangs_result [OF l, of two_lang_dir initial]
  have pre: "map (take 2) (globbed two_lang_dir) = [str ''pl''] @ str ''de'' # []
            \<and> (\<forall>l\<in>set [str ''pl'']. l = lower two_lang_dir (str ''EN'')
                   \<or> declares two_lang_dir (lower two_lang_dir (str ''EN'')) l)
            \<and> str ''de'' \<noteq> lower two_lang_dir (str ''EN'')
            \<and> files two_lang_dir (str ''de'' @ str ''.translation'') = Some (Parsed (PyDict
                 [(str ''__source_lang'', PyStr (str ''fr'')),
                  (str ''__target_lang'', PyStr (str ''de'')),
                  (str ''__target_lang_readable'', PyStr (str ''Deutsch''))]))
            \<and> map_of [(str ''__source_lang'', PyStr (str ''fr'')),
                  (str ''__target_lang'', PyStr (str ''de'')),
                  (str ''__target_lang_readable'', PyStr (str ''Deutsch''))] (str ''__source_lang'')
                = Some (PyStr (str ''fr''))
            \<and> lower two_lang_dir (str ''fr'') \<noteq> lower two_lang_dir (str ''EN'')"
    using pl(1) by (simp add: two_lang_dir_def de_file_def)
  from r [THEN conjunct2, THEN conjunct2, THEN conjunct2, rule_format, OF pre]
  have m: "fst (getlangs two_lang_dir (PyStr (str ''EN'')) initial)
        = Inl (RuntimeError (msg_mismatch (str ''de'') (str ''fr'') (str ''en'')))"
    and sub: "sublist (str ''de'') (msg_mismatch (str ''de'') (str ''fr'') (str ''en''))"
      "sublist (str ''fr'') (msg_mismatch (str ''de'') (str ''fr'') (str ''en''))"
      "sublist (str ''en'') (msg_mismatch (str ''de'') (str ''fr'') (str ''en''))"
    by simp_all
  from r have "snd (getlangs two_lang_dir (PyStr (str ''EN'')) initial) = initial"
    by blast
  with m have de: "getlangs two_lang_dir (PyStr (str ''EN'')) initial
       = (Inl (RuntimeError (msg_mismatch (str ''de'') (str ''fr'') (str ''en''))), initial)"
    by (simp add: prod_eq_iff)
  from en de sub show ?thesis by simp
qed

text \<open>
  C7. Every public operation rejects a code that is not a string of two characters and
  lowercases every code it accepts, so that \<^verbatim>\<open>get_lang_readable_name\<close> and the others
  behave alike on \<^verbatim>\<open>'EN'\<close> and \<^verbatim>\<open>'en'\<close>, on \<^verbatim>\<open>'PL'\<close> and \<^verbatim>\<open>'pl'\<close>.
  \<^verbatim>\<open>translator\<close>, \<^verbatim>\<open>getlangs\<close>, \<^verbatim>\<open>get_data_template\<close> and
  \<^verbatim>\<open>validate_translation_data\<close> lowercase; \<^verbatim>\<open>get_lang_readable_name\<close> and
  \<^verbatim>\<open>cleanup_translation_data\<close> use the argument as it is given. In a directory without
  files \<^verbatim>\<open>'en'\<close> is answered with "English" and \<^verbatim>\<open>'EN'\<close> raises FileNotFoundError; in
  the directory with \<^verbatim>\<open>pl.translation\<close>, \<^verbatim>\<open>'pl'\<close> is answered and \<^verbatim>\<open>'PL'\<close> raises
  FileNotFoundError, in both operations.
\<close>

theorem readable_name_and_cleanup_keep_case:
  "get_lang_readable_name empty_dir (PyStr (str ''en'')) st = (Inr (PyStr (str ''English'')), st)
   \<and> get_lang_readable_name empty_dir (PyStr (str ''EN'')) st
     = (Inl (FileNotFoundError (msg_no_file (str ''EN''))), st)
   \<and> get_lang_readable_name pl_dir (PyStr (str ''pl'')) st = (Inr (PyStr (str ''Polski'')), st)
   \<and> get_lang_readable_name pl_dir (PyStr (str ''PL'')) st
     = (Inl (FileNotFoundError (msg_no_file (str ''PL''))), st)
   \<and> fst (cleanup_translation_data pl_dir (PyStr (str ''pl'')) st) = Inr []
   \<and> fst (cleanup_translation_data pl_dir (PyStr (str ''PL'')) st)
     = Inl (FileNotFoundError (msg_no_file (str ''PL'')))"
proof -
  have "fst (cleanup_translation_data pl_dir (PyStr (str ''pl'')) st) = Inr []"
    by (simp add: cleanup_translation_data_def load_translations_def scan_pl_dir)
       (simp add: pl_dir_def pl_file_def is_special_def str_def)
  moreover have "fst (cleanup_translation_data pl_dir (PyStr (str ''PL'')) st)
     = Inl (FileNotFoundError (msg_no_file (str ''PL'')))"
    by (simp add: cleanup_translation_data_def load_translations_def pl_dir_def)
  ultimately show ?thesis
    by (simp add: get_lang_readable_name_def load_translations_def empty_dir_def pl_dir_def pl_file_def)
qed

text \<open>
  C8. A match of the lookup idiom on a line is discarded exactly when the line holds a
  comment marker before or within the call, and kept otherwise. As stated this fails: the
  test is \<^verbatim>\<open>re.search(r'^.*#', line)\<close>, which finds a \<^verbatim>\<open>#\<close> anywhere on the line, so a
  call that is followed by a comment is discarded as well. The line below is the call
  \<^verbatim>\<open>_("Hello")\<close>, which holds no \<^verbatim>\<open>#\<close> and is kept when it stands alone, followed by a
  comment.
\<close>

theorem trailing_comment_discards_call:
  "hello_then_comment = hello_call @ str ''  # greeting''
   \<and> 35 \<notin> set hello_call
   \<and> finditer hello_then_comment = [(hello_then_comment, str ''Hello'')]
   \<and> scan_list hello_call = [str ''Hello'']
   \<and> scan_list hello_then_comment = []"
  by (simp add: scan_list_lines finditer_def List.map_filter_simps hello_then_comment_def
      hello_call_def str_def is_quote_def)

text \<open>
  C8, as amended. The scan cuts the script at its newlines and goes through the lines in
  order. On a line that holds the lookup idiom (\<^verbatim>\<open>_(\<close>, a double or single quote, a
  non-empty literal, a quote and \<^verbatim>\<open>)\<close>) the match is the literal of the call that
  starts furthest to the right, the shortest one that a quote and a closing parenthesis
  follow; a line without the idiom has no match. The match is discarded exactly when the
  line holds a \<^verbatim>\<open>#\<close> anywhere (before, within or after the call) and kept otherwise. In
  particular the text with the lines \<^verbatim>\<open>_("Hello")\<close> and \<^verbatim>\<open># _("Ignored")\<close> gives
  exactly the list with the one phrase Hello.
\<close>

theorem scan_keeps_lines_without_hash:
  "scan_list script
     = concat (map (\<lambda>line. case match_line line of None \<Rightarrow> []
                     | Some literal \<Rightarrow> if 35 \<in> set line then [] else [literal])
                (split_lines script))
   \<and> join [10] (split_lines script) = script
   \<and> (\<forall>l\<in>set (split_lines script). 10 \<notin> set l)
   \<and> (match_line line = None \<longleftrightarrow> (\<forall>pre s g. line = pre @ s \<longrightarrow> \<not> call_prefix s g))
   \<and> (match_line line = Some g \<longleftrightarrow>
        (\<exists>pre s. line = pre @ s \<and> call_prefix s g
           \<and> (\<forall>g'. call_prefix s g' \<longrightarrow> length g \<le> length g')
           \<and> (\<forall>pre' s' g'. line = pre' @ s' \<and> call_prefix s' g' \<longrightarrow> length pre' \<le> length pre)))
   \<and> scan_list hello_and_ignored = [str ''Hello'']"
proof -
  have "scan_list hello_and_ignored = [str ''Hello'']"
    by (simp add: scan_list_lines hello_and_ignored_def hello_call_def str_def is_quote_def)
  moreover have "\<forall>l\<in>set (split_lines script). 10 \<notin> set l"
    using split_lines_no_newline by blast
  moreover note scan_list_lines [of script] join_split_lines [of script]
    match_line_None_iff [of line] match_line_Some_iff [of line g]
  ultimately show ?thesis
    by (intro conjI)
qed

theorem scan_keeps_lines_without_hash_witness:
  "match_line two_calls_line = Some (str ''two'')
   \<and> (\<exists>pre s. two_calls_line = pre @ s \<and> call_prefix s (str ''two''))
   \<and> (\<exists>pre s. two_calls_line = pre @ s \<and> call_prefix s (str ''one''))
   \<and> match_line single_quoted_call = Some (str ''one'')
   \<and> (\<exists>pre s. single_quoted_call = pre @ s \<and> call_prefix s (str ''one''))
   \<and> scan_list two_calls_line = [str ''two'']
   \<and> scan_list hello_and_ignored = [str ''Hello'']"
proof -
  have two: "match_line two_calls_line = Some (str ''two'')"
    by (simp add: two_calls_line_def str_def is_quote_def)
  have one: "match_line single_quoted_call = Some (str ''one'')"
    by (simp add: single_quoted_call_def str_def is_quote_def)
  note t = scan_keeps_lines_without_hash [of two_calls_line two_calls_line "str ''two''"]
  note o = scan_keeps_lines_without_hash [of single_quoted_call single_quoted_call "str ''one''"]
  from t [THEN conjunct2, THEN conjunct2, THEN conjunct2, THEN conjunct2, THEN conjunct1, THEN iffD1, OF two]
  have e2: "\<exists>pre s. two_calls_line = pre @ s \<and> call_prefix s (str ''two'')"
    by blast
  from o [THEN conjunct2, THEN conjunct2, THEN conjunct2, THEN conjunct2, THEN conjunct1, THEN iffD1, OF one]
  have e1: "\<exists>pre s. single_quoted_call = pre @ s \<and> call_prefix s (str ''one'')"
    by blast
  have c: "two_calls_line = str ''x = '' @ ([95, 40, 39] @ str ''one'' @ [39, 41] @ str '' + _('' @ [34] @ str ''two'' @ [34] @ str '')'')"
    by (simp add: two_calls_line_def str_def)
  have "call_prefix ([95, 40, 39] @ str ''one'' @ [39, 41] @ str '' + _('' @ [34] @ str ''two'' @ [34] @ str '')'') (str ''one'')"
    unfolding call_prefix_def
    by (intro conjI exI [of _ 39] exI [of _ "str '' + _('' @ [34] @ str ''two'' @ [34] @ str '')''"])
       (simp_all add: is_quote_def str_def)
  with c have e3: "\<exists>pre s. two_calls_line = pre @ s \<and> call_prefix s (str ''one'')"
    by blast
  from t [THEN conjunct1] two have sc: "scan_list two_calls_line = [str ''two'']"
    by (simp add: two_calls_line_def str_def)
  from t have h: "scan_list hello_and_ignored = [str ''Hello'']"
    by (elim conjE)
  from two one e1 e2 e3 sc h show ?thesis by (intro conjI)
qed

text \<open>
  C9. A validation without findings returns "Found N unique translatable strings in
  file, plus M special keys. All translation data OK." where M is always 3. As stated this
  fails: the special keys are counted by their prefix (line 441), so a scanned phrase
  that starts with two underscores is counted among them. For the script that calls
  \<^verbatim>\<open>_("Hello")\<close> and \<^verbatim>\<open>_("__x")\<close> and a file that translates both, M is 4.
\<close>

theorem validate_counts_four_special_keys:
  "validate_translation_data dunder_dir (PyStr (str ''en'')) (PyStr (str ''pl'')) initial
     = (Inr (str ''Found 1 unique translatable strings in file, plus 4 special keys. All translation data OK.''),
        initial)"
proof -
  have f: "files dunder_dir (lower dunder_dir (str ''pl'') @ str ''.translation'')
      = Some (Parsed (PyDict [(str ''__source_lang'', PyStr (str ''en'')),
     (str ''__target_lang'', PyStr (str ''pl'')),
     (str ''__target_lang_readable'', PyStr (str ''Polski'')),
     (str ''Hello'', PyStr (str ''Czesc'')),
     (str ''__x'', PyStr (str ''y''))]))"
    by (simp add: dunder_dir_def dunder_file_def)
  have "validate_translation_data dunder_dir (PyStr (str ''en'')) (PyStr (str ''pl'')) initial
     = (Inr (msg_found
             (length (remdups (filter (\<lambda>p. \<not> is_special p) (scan_list (caller dunder_dir)))))
             (3 + length (remdups (filter (\<lambda>p. is_special p \<and> p \<notin> set special_names)
                                     (scan_list (caller dunder_dir)))))),
      initial)"
    by (rule validate_all_valid [OF _ _ f])
       (simp_all add: scan_dunder_dir special_names_def strip_examples)
  then have "validate_translation_data dunder_dir (PyStr (str ''en'')) (PyStr (str ''pl'')) initial
     = (Inr (msg_found 1 4), initial)"
    by (simp add: scan_dunder_dir is_special_def special_names_def)
  then show ?thesis
    by (simp add: msg_found_def str_of_nat.simps) (simp add: str_def)
qed

text \<open>
  C9, as amended. For two codes of two characters and a target file that parses to a
  dict in which the three special keys and every scanned phrase have a string value that
  is not blank, \<^verbatim>\<open>validate_translation_data\<close> returns exactly "Found N unique translatable
  strings in file, plus M special keys. All translation data OK." and leaves the state
  as it was, where N is the number of distinct scanned phrases that do not start with two
  underscores and M is 3 plus the number of distinct scanned phrases that start with two
  underscores and are none of the three special keys (so M is 3 when there is no such
  phrase).
\<close>

theorem validate_success_summary:
  assumes "length s = 2" and "length t = 2"
    and "files e (lower e t @ str ''.translation'') = Some (Parsed (PyDict kvs))"
    and "\<forall>k\<in>set special_names \<union> set (scan_list (caller e)).
           \<exists>v. map_of kvs k = Some v \<and> valid_translation v"
  shows "validate_translation_data e (PyStr s) (PyStr t) st =
     (Inr (msg_found
             (length (remdups (filter (\<lambda>p. \<not> is_special p) (scan_list (caller e)))))
             (3 + length (remdups (filter (\<lambda>p. is_special p \<and> p \<notin> set special_names)
                                     (scan_list (caller e)))))),
      st)"
  using assms by (rule validate_all_valid)

theorem validate_success_summary_witness:
  "validate_translation_data pl_dir (PyStr (str ''EN'')) (PyStr (str ''PL'')) initial
     = (Inr (str ''Found 1 unique translatable strings in file, plus 3 special keys. All translation data OK.''),
        initial)"
proof -
  have f: "files pl_dir (lower pl_dir (str ''PL'') @ str ''.translation'')
      = Some (Parsed (PyDict [(str ''__source_lang'', PyStr (str ''en'')),
     (str ''__target_lang'', PyStr (str ''pl'')),
     (str ''__target_lang_readable'', PyStr (str ''Polski'')),
     (str ''Hello'', PyStr (str ''Czesc''))]))"
    by (simp add: pl_dir_def pl_file_def)
  have "validate_translation_data pl_dir (PyStr (str ''EN'')) (PyStr (str ''PL'')) initial
     = (Inr (msg_found
             (length (remdups (filter (\<lambda>p. \<not> is_special p) (scan_list (caller pl_dir)))))
             (3 + length (remdups (filter (\<lambda>p. is_special p \<and> p \<notin> set special_names)
                                     (scan_list (caller pl_dir)))))),
      initial)"
    by (rule validate_success_summary [OF _ _ f])
       (simp_all add: scan_pl_dir special_names_def strip_examples)
  then have "validate_translation_data pl_dir (PyStr (str ''EN'')) (PyStr (str ''PL'')) initial
     = (Inr (msg_found 1 3), initial)"
    by (simp add: scan_pl_dir is_special_def)
  then show ?thesis
    by (simp add: msg_found_def str_of_nat.simps) (simp add: str_def)
qed

text \<open>
  C10. \<^verbatim>\<open>translator\<close> is not atomic on argument errors: called with a valid
  source_lang (a string of two characters) and a target_lang that is neither None nor a
  string of two characters, it raises the ValueError for the target only after the
  global source language has been overwritten with the lowercased source_lang; the
  global target language and the translation store are as they were before the call.
\<close>

theorem translator_bad_target_not_atomic:
  assumes "length s = 2"
    and "tgt \<noteq> PyNone"
    and "\<forall>t. tgt = PyStr t \<longrightarrow> length t \<noteq> 2"
  shows "translator e (PyStr s) tgt st =
           (Inl (ValueError msg_target_or_None), st\<lparr>g_source_lang := Some (lower e s)\<rparr>)
         \<and> g_source_lang (snd (translator e (PyStr s) tgt st)) = Some (lower e s)
         \<and> g_target_lang (snd (translator e (PyStr s) tgt st)) = g_target_lang st
         \<and> g_translations (snd (translator e (PyStr s) tgt st)) = g_translations st"
  using assms by (cases tgt) simp_all

theorem translator_bad_target_not_atomic_witness:
  "translator empty_dir (PyStr (str ''EN'')) (PyStr (str ''eng'')) initial =
     (Inl (ValueError msg_target_or_None), initial\<lparr>g_source_lang := Some (str ''en'')\<rparr>)
   \<and> translator empty_dir (PyStr (str ''EN'')) (PyNum 7) initial =
     (Inl (ValueError msg_target_or_None), initial\<lparr>g_source_lang := Some (str ''en'')\<rparr>)"
  using translator_bad_target_not_atomic [of "str ''EN''" "PyStr (str ''eng'')" empty_dir initial]
    translator_bad_target_not_atomic [of "str ''EN''" "PyNum 7" empty_dir initial]
  by simp

end
